theory Spec2Isabelle
  imports Complex_Main "HOL-Library.Word" "HOL-Library.Multiset"
begin

unbundle bit_operations_syntax

section \<open>Common data model\<close>

text \<open>
  The exceptions the modelled code can raise. A function that can raise returns
  \<open>error + 'a\<close>, with \<open>Inl\<close> for the exception.
\<close>

datatype error = IndexError | KeyError | RuntimeError | ValueError | FileNotFoundError

type_synonym u8 = "8 word"

text \<open>
  An image as PIL hands it to the code: \<open>im_size\<close> is PIL's \<open>size\<close>, that is
  (width, height); \<open>im_bands\<close> is \<open>len(getbands())\<close>; \<open>im_bytes\<close> is \<open>tobytes()\<close>,
  row-major with the bands of a pixel interleaved. In the 8-bit modes (L, P, RGB) every
  band value is one byte, so there are height * width * bands bytes. A wider mode has one
  band and more bytes per pixel: mode I (32-bit integers) has four, mode I;16 has two.
\<close>

record pil_image =
  im_size :: "nat \<times> nat"
  im_bands :: nat
  im_bytes :: "u8 list"

text \<open>
  Python list indexing \<open>xs[key]\<close>: a negative key counts from the end, and a key
  outside \<open>[-len, len)\<close> raises IndexError.
\<close>

definition py_getitem :: "'a list \<Rightarrow> int \<Rightarrow> error + 'a" where
  "py_getitem xs key =
     (let n = int (length xs); k = (if key < 0 then key + n else key)
      in if 0 \<le> k \<and> k < n then Inr (xs ! nat k) else Inl IndexError)"

section \<open>Label encoder (class SegEncoder)\<close>

text \<open>
  \<open>pil_to_tensor\<close>: the bytes of the image become a byte tensor, viewed as
  (height, width, bands) and permuted to (bands, height, width). The view raises when
  the number of bytes is not height * width * bands. The tensor is a list of bands, each
  a list of rows.
\<close>

definition pil_to_tensor :: "pil_image \<Rightarrow> error + u8 list list list" where
  "pil_to_tensor pil_img =
     (let w = fst (im_size pil_img); h = snd (im_size pil_img);
          b = im_bands pil_img; img = im_bytes pil_img
      in if length img \<noteq> h * w * b then Inl RuntimeError
         else Inr (map (\<lambda>c. map (\<lambda>i. map (\<lambda>j. img ! ((i * w + j) * b + c)) [0..<w]) [0..<h])
                    [0..<b]))"

text \<open>
  \<open>torch.arange(start, end, dtype=torch.uint8)\<close>: the values start, start+1, ...,
  end-1 are computed as integers and stored in bytes, so they are reduced modulo 256.
  An upper bound below the lower bound raises.
\<close>

definition arange_u8 :: "int \<Rightarrow> int \<Rightarrow> error + u8 list" where
  "arange_u8 start end =
     (if end < start then Inl RuntimeError
      else Inr (map (\<lambda>k. word_of_int (start + int k)) [0..<nat (end - start)]))"

text \<open>
  \<open>(cat_ids_n11 == cat_map_1hw).float()\<close>: the comparison of a tensor of shape
  (n, 1, 1) with one of shape (c, h, w). Broadcasting needs n = c, n = 1 or c = 1, and
  the result has n channels unless n = 1, where it has c. True becomes 1.0, False 0.0.
\<close>

definition eq_n11 :: "u8 list \<Rightarrow> u8 list list list \<Rightarrow> error + real list list list" where
  "eq_n11 cat_ids_n cat_map =
     (let n = length cat_ids_n; c = length cat_map
      in if n = c \<or> n = 1 \<or> c = 1 then
           Inr (map (\<lambda>k. map (map (\<lambda>v. of_bool (cat_ids_n ! (if n = 1 then 0 else k) = v)))
                           (cat_map ! (if c = 1 then 0 else k)))
                  [0..<(if n = 1 then c else n)])
         else Inl RuntimeError)"

definition catgory_to_onehot :: "int \<Rightarrow> pil_image \<Rightarrow> error + real list list list" where
  "catgory_to_onehot num_classes cat_map_pil =
     (case pil_to_tensor cat_map_pil of
        Inl e \<Rightarrow> Inl e
      | Inr cat_map_1hw \<Rightarrow>
          (case arange_u8 1 (num_classes + 1) of
             Inl e \<Rightarrow> Inl e
           | Inr cat_ids_n \<Rightarrow> eq_n11 cat_ids_n cat_map_1hw))"

text \<open>The value of a one-band image at row \<open>i\<close>, column \<open>j\<close>.\<close>

definition grid_at :: "pil_image \<Rightarrow> nat \<Rightarrow> nat \<Rightarrow> u8" where
  "grid_at img i j = im_bytes img ! (i * fst (im_size img) + j)"

text \<open>The sum of a (channels, height, width) tensor over the channel axis, at one pixel.\<close>

definition channel_sum :: "real list list list \<Rightarrow> nat \<Rightarrow> nat \<Rightarrow> real" where
  "channel_sum t i j = sum_list (map (\<lambda>ch. ch ! i ! j) t)"

section \<open>Tensors, files and strings\<close>

text \<open>
  A numpy array or torch tensor: its shape and its elements in row-major order. It is
  well formed when the number of elements is the product of the shape. An element-wise
  operation maps over \<open>data\<close> and keeps \<open>shape\<close>.
\<close>

record 'a tensor =
  shape :: "nat list"
  data :: "'a list"

definition wf_tensor :: "'a tensor \<Rightarrow> bool" where
  "wf_tensor t = (length (data t) = prod_list (shape t))"

definition tmap :: "('a \<Rightarrow> 'b) \<Rightarrow> 'a tensor \<Rightarrow> 'b tensor" where
  "tmap f t = \<lparr>shape = shape t, data = map f (data t)\<rparr>"

text \<open>An element-wise operation on two tensors of one shape.\<close>

definition tmap2 :: "('a \<Rightarrow> 'b \<Rightarrow> 'c) \<Rightarrow> 'a tensor \<Rightarrow> 'b tensor \<Rightarrow> 'c tensor" where
  "tmap2 f a b = \<lparr>shape = shape a, data = map2 f (data a) (data b)\<rparr>"

text \<open>The sample every adapter returns from \<open>get_raw_data\<close>.\<close>

record 'a sample =
  image :: pil_image
  seg_mask :: "'a tensor"
  loss_mask :: "'a tensor"

text \<open>
  What the code reads from outside: image files (\<open>Image.open\<close>), text files
  (\<open>readlines\<close>), annotation stores and index structures, and PIL's conversion to
  three-band colour, which keeps the size of the image.
\<close>

record annotation =
  iscrowd :: int
  area :: real
  category_id :: int
  region :: "nat \<Rightarrow> nat \<Rightarrow> bool"

text \<open>
  The annotation store (pycocotools' \<open>COCO\<close>): \<open>imgs\<close> and \<open>cats\<close> are dictionaries in
  insertion order, an image by its \<open>file_name\<close> and a category by its \<open>name\<close>;
  \<open>imgToAnns\<close> is a dictionary with the empty list as default. The field \<open>region\<close> of
  an annotation is its polygon or RLE as the set of pixels (row, column) it covers.
\<close>

record coco_api =
  imgs :: "(int \<times> string) list"
  imgToAnns :: "int \<Rightarrow> annotation list"
  cats :: "(int \<times> string) list"

record world =
  image_files :: "string \<rightharpoonup> pil_image"
  text_files :: "string \<rightharpoonup> string list"
  coco_files :: "string \<rightharpoonup> coco_api"
  mat_files :: "string \<rightharpoonup> (string list \<times> string list)"
  convert_RGB :: "pil_image \<Rightarrow> pil_image"

definition image_open :: "world \<Rightarrow> string \<Rightarrow> error + pil_image" where
  "image_open wd path = (case image_files wd path of None \<Rightarrow> Inl FileNotFoundError | Some im \<Rightarrow> Inr im)"

definition open_rgb :: "world \<Rightarrow> string \<Rightarrow> error + pil_image" where
  "open_rgb wd path =
     (case image_open wd path of Inl e \<Rightarrow> Inl e | Inr im \<Rightarrow> Inr (convert_RGB wd im))"

definition readlines :: "world \<Rightarrow> string \<Rightarrow> error + string list" where
  "readlines wd path = (case text_files wd path of None \<Rightarrow> Inl FileNotFoundError | Some ls \<Rightarrow> Inr ls)"

text \<open>\<open>os.path.join\<close> of two components (POSIX).\<close>

definition path_join :: "string \<Rightarrow> string \<Rightarrow> string" where
  "path_join a b =
     (if b \<noteq> [] \<and> hd b = CHR ''/'' then b
      else if a = [] \<or> last a = CHR ''/'' then a @ b
      else a @ ''/'' @ b)"

text \<open>\<open>s.split(c)\<close> for a one-character separator, \<open>s.strip(c)\<close>, and \<open>sub in s\<close>.\<close>

fun py_split :: "char \<Rightarrow> string \<Rightarrow> string list" where
  "py_split c [] = [[]]"
| "py_split c (x # xs) =
     (if x = c then [] # py_split c xs
      else (case py_split c xs of [] \<Rightarrow> [[x]] | w # ws \<Rightarrow> (x # w) # ws))"

definition py_strip :: "char \<Rightarrow> string \<Rightarrow> string" where
  "py_strip c s = rev (dropWhile (\<lambda>x. x = c) (rev (dropWhile (\<lambda>x. x = c) s)))"

fun py_in :: "string \<Rightarrow> string \<Rightarrow> bool" where
  "py_in sub [] = (sub = [])"
| "py_in sub (x # xs) = (take (length sub) (x # xs) = sub \<or> py_in sub xs)"

text \<open>
  \<open>np.array(img, dtype=np.uint8)\<close> of an 8-bit image: shape (height, width) for one
  band, (height, width, bands) otherwise.
\<close>

definition np_array :: "pil_image \<Rightarrow> u8 tensor" where
  "np_array img =
     (let w = fst (im_size img); h = snd (im_size img); b = im_bands img
      in \<lparr>shape = (if b = 1 then [h, w] else [h, w, b]), data = im_bytes img\<rparr>)"

section \<open>Polygon-annotation adapter (class COCODataset)\<close>

record coco_params =
  version :: string
  data_dir :: string
  annotation_dir :: string
  min_area :: real
  coco_classes :: "string set"

record coco_dataset =
  co_p :: coco_params
  co_mode :: string
  co_img_dir :: string
  co_coco :: coco_api
  co_img_ids :: "int list"
  co_class_map :: "int \<rightharpoonup> int"

text \<open>\<open>_generate_class_map\<close>: the loop over \<open>coco.cats.items()\<close>, with \<open>idx\<close> and \<open>mapping\<close>.\<close>

fun coco_class_map_loop ::
  "string set \<Rightarrow> (int \<times> string) list \<Rightarrow> int \<Rightarrow> (int \<rightharpoonup> int) \<Rightarrow> (int \<rightharpoonup> int)" where
  "coco_class_map_loop classes [] idx mapping = mapping"
| "coco_class_map_loop classes ((cat_id, name) # rest) idx mapping =
     (if name \<in> classes
      then coco_class_map_loop classes rest (idx + 1) (mapping(cat_id \<mapsto> idx))
      else coco_class_map_loop classes rest idx mapping)"

definition coco_generate_class_map :: "coco_params \<Rightarrow> coco_api \<Rightarrow> (int \<rightharpoonup> int)" where
  "coco_generate_class_map p c = coco_class_map_loop (coco_classes p) (cats c) 1 Map.empty"

text \<open>
  \<open>__init__\<close>. The version is held as the text that \<open>format\<close> prints. The crop and
  augmentation objects of the base class take no part in \<open>get_raw_data\<close> and are left out.
\<close>

definition COCODataset_init :: "world \<Rightarrow> coco_params \<Rightarrow> bool \<Rightarrow> error + coco_dataset" where
  "COCODataset_init wd p train =
     (let mode = (if train then ''train'' else ''val'');
          annotation_path = path_join (annotation_dir p) (''instances_'' @ mode @ version p @ ''.json'');
          img_dir = path_join (data_dir p) (mode @ version p)
      in case coco_files wd annotation_path of
           None \<Rightarrow> Inl FileNotFoundError
         | Some c \<Rightarrow>
             Inr \<lparr>co_p = p, co_mode = mode, co_img_dir = img_dir, co_coco = c,
                  co_img_ids = map fst (imgs c),
                  co_class_map = coco_generate_class_map p c\<rparr>)"

definition coco_get_img :: "world \<Rightarrow> coco_dataset \<Rightarrow> int \<Rightarrow> error + pil_image" where
  "coco_get_img wd ds img_id =
     (case map_of (imgs (co_coco ds)) img_id of
        None \<Rightarrow> Inl KeyError
      | Some img_fname \<Rightarrow> open_rgb wd (path_join (co_img_dir ds) img_fname))"

text \<open>
  \<open>annToMask\<close>: the binary mask of an annotation as a byte tensor. The store rasterises
  at the height and width it records for the image; they are taken to be those of the
  image file, so the mask has the shape of \<open>seg_mask\<close>.
\<close>

definition annToMask :: "nat \<Rightarrow> nat \<Rightarrow> annotation \<Rightarrow> u8 tensor" where
  "annToMask h w ann =
     \<lparr>shape = [h, w], data = map (\<lambda>k. of_bool (region ann (k div w) (k mod w))) [0..<h * w]\<rparr>"

text \<open>
  The loop over the annotations, with the state (\<open>seg_mask\<close>, \<open>loss_mask\<close>). The tensors
  are bytes: \<open>bitwise_not\<close> flips all eight bits, \<open>ann_mask * class_id\<close> is a byte
  product (the Python integer is taken modulo 256), \<open>torch.max\<close> is the unsigned maximum.
\<close>

fun coco_ann_loop ::
  "real \<Rightarrow> (int \<rightharpoonup> int) \<Rightarrow> nat \<Rightarrow> nat \<Rightarrow> annotation list \<Rightarrow> u8 tensor \<times> u8 tensor \<Rightarrow> u8 tensor \<times> u8 tensor" where
  "coco_ann_loop ma cm h w [] (seg, loss) = (seg, loss)"
| "coco_ann_loop ma cm h w (ann # anns) (seg, loss) =
     (let ann_mask = annToMask h w ann
      in if iscrowd ann \<noteq> 0 \<or> area ann < ma
         then coco_ann_loop ma cm h w anns (seg, tmap2 (AND) loss (tmap NOT ann_mask))
         else (case cm (category_id ann) of
                 Some class_id \<Rightarrow>
                   coco_ann_loop ma cm h w anns
                     (tmap2 max seg (tmap (\<lambda>v. v * word_of_int class_id) ann_mask), loss)
               | None \<Rightarrow> coco_ann_loop ma cm h w anns (seg, loss)))"

definition coco_get_raw_data :: "world \<Rightarrow> coco_dataset \<Rightarrow> int \<Rightarrow> error + u8 sample" where
  "coco_get_raw_data wd ds key =
     (case py_getitem (co_img_ids ds) key of
        Inl e \<Rightarrow> Inl e
      | Inr img_id \<Rightarrow>
          (let annotations = imgToAnns (co_coco ds) img_id
           in case coco_get_img wd ds img_id of
                Inl e \<Rightarrow> Inl e
              | Inr img \<Rightarrow>
                  (let h = snd (im_size img); w = fst (im_size img);
                       seg0 = \<lparr>shape = [h, w], data = replicate (h * w) (0 :: u8)\<rparr>;
                       loss0 = tmap (\<lambda>_. 1 :: u8) seg0;
                       (seg, loss) = coco_ann_loop (min_area (co_p ds)) (co_class_map ds) h w
                                       annotations (seg0, loss0)
                   in case coco_get_img wd ds img_id of
                        Inl e \<Rightarrow> Inl e
                      | Inr im \<Rightarrow> Inr \<lparr>image = im, seg_mask = seg, loss_mask = loss\<rparr>)))"

definition coco_len :: "coco_dataset \<Rightarrow> nat" where
  "coco_len ds = length (imgs (co_coco ds))"

section \<open>Concrete inputs\<close>

definition img12 :: pil_image where
  "img12 = \<lparr>im_size = (2, 1), im_bands = 1, im_bytes = [2, 0]\<rparr>"

definition img_one :: pil_image where
  "img_one = \<lparr>im_size = (1, 1), im_bands = 1, im_bytes = [1]\<rparr>"

definition img_zero :: pil_image where
  "img_zero = \<lparr>im_size = (1, 1), im_bands = 1, im_bytes = [0]\<rparr>"

definition img13 :: pil_image where
  "img13 = \<lparr>im_size = (3, 1), im_bands = 1, im_bytes = [0, 200, 2]\<rparr>"

text \<open>
  A one-pixel image of mode I holding the packed class id 517: one band, four bytes
  (517 = 5 + 2 * 256, least significant byte first).
\<close>

definition img_wide :: pil_image where
  "img_wide = \<lparr>im_size = (1, 1), im_bands = 1, im_bytes = [5, 2, 0, 0]\<rparr>"

definition seg_ids :: "real \<Rightarrow> (int \<rightharpoonup> int) \<Rightarrow> annotation list \<Rightarrow> nat \<Rightarrow> nat \<Rightarrow> int set" where
  "seg_ids ma cm anns i j =
     {c. \<exists>a\<in>set anns. iscrowd a = 0 \<and> \<not> area a < ma \<and> cm (category_id a) = Some c \<and> region a i j}"

definition with_annotations :: "coco_dataset \<Rightarrow> int \<Rightarrow> annotation list \<Rightarrow> coco_dataset" where
  "with_annotations ds img_id anns =
     ds\<lparr>co_coco := (co_coco ds)\<lparr>imgToAnns := (imgToAnns (co_coco ds))(img_id := anns)\<rparr>\<rparr>"

definition seg0 :: "nat \<Rightarrow> nat \<Rightarrow> u8 tensor" where
  "seg0 h w = \<lparr>shape = [h, w], data = replicate (h * w) 0\<rparr>"

definition img_1x2 :: pil_image where
  "img_1x2 = \<lparr>im_size = (2, 1), im_bands = 3, im_bytes = [10, 20, 30, 40, 50, 60]\<rparr>"

definition ann_cup :: annotation where
  "ann_cup = \<lparr>iscrowd = 0, area = 300, category_id = 11, region = (\<lambda>i j. True)\<rparr>"

definition ann_spoon :: annotation where
  "ann_spoon = \<lparr>iscrowd = 0, area = 250, category_id = 15, region = (\<lambda>i j. j = 0)\<rparr>"

definition ann_crowd :: annotation where
  "ann_crowd = \<lparr>iscrowd = 1, area = 500, category_id = 15, region = (\<lambda>i j. j = 1)\<rparr>"

definition store_w :: coco_api where
  "store_w = \<lparr>imgs = [(7, ''a.jpg'')],
     imgToAnns = (\<lambda>i. if i = 7 then [ann_cup, ann_spoon, ann_crowd] else []),
     cats = [(10, ''bottle''), (11, ''cup''), (12, ''dog''), (13, ''fork''), (14, ''knife''),
             (15, ''spoon'')]\<rparr>"

definition params_w :: coco_params where
  "params_w = \<lparr>version = ''2017'', data_dir = ''/data/COCO2017'',
     annotation_dir = ''/data/COCO2017/annotations'', min_area = 200,
     coco_classes = {''bottle'', ''cup'', ''fork'', ''knife'', ''spoon''}\<rparr>"

definition world_w :: world where
  "world_w = \<lparr>image_files = [''/data/COCO2017/train2017/a.jpg'' \<mapsto> img_1x2],
     text_files = Map.empty,
     coco_files = [''/data/COCO2017/annotations/instances_train2017.json'' \<mapsto> store_w],
     mat_files = Map.empty, convert_RGB = id\<rparr>"

definition ds_w :: coco_dataset where
  "ds_w = \<lparr>co_p = params_w, co_mode = ''train'', co_img_dir = ''/data/COCO2017/train2017'',
     co_coco = store_w, co_img_ids = [7],
     co_class_map = coco_generate_class_map params_w store_w\<rparr>"

definition cats256 :: "(int \<times> string) list" where
  "cats256 = map (\<lambda>k. (int k, replicate k CHR ''c'')) [1..<257]"

definition ann256 :: annotation where
  "ann256 = \<lparr>iscrowd = 0, area = 300, category_id = 256, region = (\<lambda>i j. True)\<rparr>"

definition store256 :: coco_api where
  "store256 = \<lparr>imgs = [(7, ''a.jpg'')], imgToAnns = (\<lambda>i. if i = 7 then [ann256] else []),
     cats = cats256\<rparr>"

definition params256 :: coco_params where
  "params256 = \<lparr>version = ''2017'', data_dir = ''/data/COCO2017'',
     annotation_dir = ''/data/COCO2017/annotations'', min_area = 200,
     coco_classes = (\<lambda>k. replicate k CHR ''c'') ` {1..<257}\<rparr>"

definition world256 :: world where
  "world256 = \<lparr>image_files = [''/data/COCO2017/train2017/a.jpg'' \<mapsto> img_1x2],
     text_files = Map.empty,
     coco_files = [''/data/COCO2017/annotations/instances_train2017.json'' \<mapsto> store256],
     mat_files = Map.empty, convert_RGB = id\<rparr>"

definition ds256 :: coco_dataset where
  "ds256 = \<lparr>co_p = params256, co_mode = ''train'', co_img_dir = ''/data/COCO2017/train2017'',
     co_coco = store256, co_img_ids = [7],
     co_class_map = coco_generate_class_map params256 store256\<rparr>"

record ade_params =
  ade_root_dir :: string
  ade_classes :: "string set"

record ade_dataset =
  ade_p :: ade_params
  ade_img_path_list :: "string list"
  ade_scenario_list :: "string list"
  ade_seg_path_list :: "string list"
  ade_dataset_size :: nat
  ade_class_map :: "int \<Rightarrow> int"

fun ade_scan ::
  "bool \<Rightarrow> string \<Rightarrow> string \<Rightarrow> string list \<Rightarrow> string list \<times> string list \<times> string list
     \<Rightarrow> error + string list \<times> string list \<times> string list" where
  "ade_scan train img_dir seg_anno_path [] acc = Inr acc"
| "ade_scan train img_dir seg_anno_path (line # rest) (ips, sps, scs) =
     (case py_split CHR '' '' (butlast line) of
        [img_name, scene_name] \<Rightarrow>
          if train \<and> py_in ''val'' img_name then ade_scan train img_dir seg_anno_path rest (ips, sps, scs)
          else if \<not> train \<and> py_in ''train'' img_name then ade_scan train img_dir seg_anno_path rest (ips, sps, scs)
          else ade_scan train img_dir seg_anno_path rest
                 (ips @ [path_join img_dir (img_name @ ''.jpg'')],
                  sps @ [path_join seg_anno_path (img_name @ ''.png'')],
                  scs @ [scene_name])
      | _ \<Rightarrow> Inl ValueError)"

fun ade_map_loop :: "string set \<Rightarrow> string list \<Rightarrow> int \<Rightarrow> (int \<rightharpoonup> int) \<Rightarrow> int \<Rightarrow> (int \<rightharpoonup> int)" where
  "ade_map_loop classes [] i map_dict cur_idx = map_dict"
| "ade_map_loop classes (n # ns) i map_dict cur_idx =
     (if n \<in> classes
      then ade_map_loop classes ns (i + 1) (map_dict(i + 1 \<mapsto> cur_idx)) (cur_idx + 1)
      else ade_map_loop classes ns (i + 1) map_dict cur_idx)"

definition class_name_list :: "string list \<Rightarrow> string list" where
  "class_name_list class_desc =
     map (\<lambda>line. py_strip CHR '' '' (last (py_split CHR 0x09 (butlast line)))) (tl class_desc)"

definition map_func :: "(int \<rightharpoonup> int) \<Rightarrow> int \<Rightarrow> int" where
  "map_func map_dict elem = (case map_dict elem of Some v \<Rightarrow> v | None \<Rightarrow> 0)"

definition ade_generate_class_map :: "world \<Rightarrow> ade_params \<Rightarrow> string \<Rightarrow> error + (int \<Rightarrow> int)" where
  "ade_generate_class_map wd p class_desc_path =
     (case readlines wd class_desc_path of
        Inl e \<Rightarrow> Inl e
      | Inr class_desc \<Rightarrow>
          Inr (map_func (ade_map_loop (ade_classes p) (class_name_list class_desc) 0 Map.empty 1)))"

definition ADE20KDataset_init :: "world \<Rightarrow> ade_params \<Rightarrow> bool \<Rightarrow> error + ade_dataset" where
  "ADE20KDataset_init wd p train =
     (let root_dir = ade_root_dir p;
          img_dir = path_join root_dir (if train then ''images/training'' else ''images/validation'');
          seg_anno_path = path_join root_dir
                            (if train then ''annotations/training'' else ''annotations/validation'');
          anno_path = path_join root_dir ''sceneCategories.txt'';
          class_desc_path = path_join root_dir ''objectInfo150.txt''
      in case readlines wd anno_path of
           Inl e \<Rightarrow> Inl e
         | Inr anno_content \<Rightarrow>
             (case ade_scan train img_dir seg_anno_path anno_content ([], [], []) of
                Inl e \<Rightarrow> Inl e
              | Inr (ips, sps, scs) \<Rightarrow>
                  (case ade_generate_class_map wd p class_desc_path of
                     Inl e \<Rightarrow> Inl e
                   | Inr cm \<Rightarrow>
                       Inr \<lparr>ade_p = p, ade_img_path_list = ips, ade_scenario_list = scs,
                            ade_seg_path_list = sps, ade_dataset_size = length ips,
                            ade_class_map = cm\<rparr>)))"

definition np_vectorize :: "(int \<Rightarrow> int) \<Rightarrow> u8 tensor \<Rightarrow> error + int tensor" where
  "np_vectorize f a = (if data a = [] then Inl ValueError else Inr (tmap (\<lambda>v. f (uint v)) a))"

definition ade_get_raw_data :: "world \<Rightarrow> ade_dataset \<Rightarrow> int \<Rightarrow> error + u8 sample" where
  "ade_get_raw_data wd ds key =
     (case py_getitem (ade_img_path_list ds) key of
        Inl e \<Rightarrow> Inl e
      | Inr img_path \<Rightarrow>
          (case py_getitem (ade_seg_path_list ds) key of
             Inl e \<Rightarrow> Inl e
           | Inr seg_path \<Rightarrow>
               (case open_rgb wd img_path of
                  Inl e \<Rightarrow> Inl e
                | Inr img \<Rightarrow>
                    (case image_open wd seg_path of
                       Inl e \<Rightarrow> Inl e
                     | Inr seg_img \<Rightarrow>
                         (case np_vectorize (ade_class_map ds) (np_array seg_img) of
                            Inl e \<Rightarrow> Inl e
                          | Inr seg_arr \<Rightarrow>
                              (let seg = tmap word_of_int seg_arr;
                                   loss = tmap (\<lambda>_. 1) seg
                               in Inr \<lparr>image = img, seg_mask = seg, loss_mask = loss\<rparr>))))))"

definition ade_len :: "ade_dataset \<Rightarrow> nat" where
  "ade_len ds = ade_dataset_size ds"

record fg_params =
  fg_root_dir :: string
  fg_classes :: "string set"

record fg_dataset =
  fg_p :: fg_params
  fg_data_dir_base :: string
  fg_img_path_list :: "string list"
  fg_seg_path_list :: "string list"
  fg_dataset_size :: nat

definition get_seg_path :: "string \<Rightarrow> string" where
  "get_seg_path img_path = take (length img_path - 4) img_path @ ''_seg.png''"

fun fg_scan ::
  "string \<Rightarrow> string \<Rightarrow> string list \<Rightarrow> string list \<Rightarrow> nat \<Rightarrow> string list \<times> string list
     \<Rightarrow> error + string list \<times> string list" where
  "fg_scan base mark [] folders i acc = Inr acc"
| "fg_scan base mark (cur_file_name # rest) folders i (ips, sps) =
     (if py_in mark cur_file_name
      then (if i < length folders
            then (let img_path = path_join (path_join base (folders ! i)) cur_file_name
                  in fg_scan base mark rest folders (i + 1)
                       (ips @ [img_path], sps @ [get_seg_path img_path]))
            else Inl IndexError)
      else fg_scan base mark rest folders (i + 1) (ips, sps))"

definition FineGrainedADE20KDataset_init :: "world \<Rightarrow> fg_params \<Rightarrow> bool \<Rightarrow> error + fg_dataset" where
  "FineGrainedADE20KDataset_init wd p train =
     (case mat_files wd (path_join (fg_root_dir p) ''index_ade20k.mat'') of
        None \<Rightarrow> Inl FileNotFoundError
      | Some (filename, folder) \<Rightarrow>
          (let data_dir_base = path_join (fg_root_dir p) ''..'';
               img_set_mark = (if train then ''train'' else ''val'')
           in case fg_scan data_dir_base img_set_mark filename folder 0 ([], []) of
                Inl e \<Rightarrow> Inl e
              | Inr (ips, sps) \<Rightarrow>
                  Inr \<lparr>fg_p = p, fg_data_dir_base = data_dir_base, fg_img_path_list = ips,
                       fg_seg_path_list = sps, fg_dataset_size = length ips\<rparr>))"

type_synonym i64 = "64 word"

definition np_channel :: "pil_image \<Rightarrow> nat \<Rightarrow> error + u8 tensor" where
  "np_channel img k =
     (let w = fst (im_size img); h = snd (im_size img); b = im_bands img
      in if b = 1 \<or> b \<le> k then Inl IndexError
         else Inr \<lparr>shape = [h, w], data = map (\<lambda>q. im_bytes img ! (q * b + k)) [0..<h * w]\<rparr>)"

definition fg_get_raw_data :: "world \<Rightarrow> fg_dataset \<Rightarrow> int \<Rightarrow> error + i64 sample" where
  "fg_get_raw_data wd ds key =
     (case py_getitem (fg_img_path_list ds) key of
        Inl e \<Rightarrow> Inl e
      | Inr img_path \<Rightarrow>
          (case py_getitem (fg_seg_path_list ds) key of
             Inl e \<Rightarrow> Inl e
           | Inr seg_path \<Rightarrow>
               (case open_rgb wd img_path of
                  Inl e \<Rightarrow> Inl e
                | Inr raw_img \<Rightarrow>
                    (case image_open wd seg_path of
                       Inl e \<Rightarrow> Inl e
                     | Inr seg_img \<Rightarrow>
                         (case np_channel seg_img 0 of
                            Inl e \<Rightarrow> Inl e
                          | Inr ch0 \<Rightarrow>
                              (let cat_map = tmap (\<lambda>v. v div 10) ch0;
                                   cat_map = tmap (ucast :: u8 \<Rightarrow> i64) cat_map;
                                   cat_map = tmap (\<lambda>v. v * 256) cat_map
                               in case np_channel seg_img 1 of
                                    Inl e \<Rightarrow> Inl e
                                  | Inr ch1 \<Rightarrow>
                                      (let cat_map = tmap2 (\<lambda>a b. a + ucast b) cat_map ch1;
                                           seg = cat_map;
                                           loss = tmap (\<lambda>_. 1) seg
                                       in Inr \<lparr>image = raw_img, seg_mask = seg, loss_mask = loss\<rparr>)))))))"

definition fg_len :: "fg_dataset \<Rightarrow> nat" where
  "fg_len ds = fg_dataset_size ds"

definition px :: "pil_image \<Rightarrow> nat \<Rightarrow> nat \<Rightarrow> nat \<Rightarrow> u8" where
  "px img i j k = im_bytes img ! ((i * fst (im_size img) + j) * im_bands img + k)"

definition with_classes :: "fg_dataset \<Rightarrow> string set \<Rightarrow> fg_dataset" where
  "with_classes ds S = ds\<lparr>fg_p := (fg_p ds)\<lparr>fg_classes := S\<rparr>\<rparr>"

definition seg_png :: pil_image where
  "seg_png = \<lparr>im_size = (1, 1), im_bands = 3, im_bytes = [20, 5, 0]\<rparr>"

definition img_jpg :: pil_image where
  "img_jpg = \<lparr>im_size = (1, 1), im_bands = 3, im_bytes = [1, 2, 3]\<rparr>"

definition fg_params_w :: fg_params where
  "fg_params_w = \<lparr>fg_root_dir = ''/data/ADE20K_2016_07_26/'', fg_classes = {''cup'', ''bed''}\<rparr>"

definition fg_world :: world where
  "fg_world = \<lparr>image_files =
       [''/data/ADE20K_2016_07_26/../ADE20K_2016_07_26/images/training/a/ADE_train_00000001.jpg'' \<mapsto> img_jpg,
        ''/data/ADE20K_2016_07_26/../ADE20K_2016_07_26/images/training/a/ADE_train_00000001_seg.png'' \<mapsto> seg_png],
     text_files = Map.empty, coco_files = Map.empty,
     mat_files = [''/data/ADE20K_2016_07_26/index_ade20k.mat'' \<mapsto>
        ([''ADE_train_00000001.jpg'', ''ADE_val_00000001.jpg''],
         [''ADE20K_2016_07_26/images/training/a'', ''ADE20K_2016_07_26/images/validation/a''])],
     convert_RGB = id\<rparr>"

definition fg_ds :: fg_dataset where
  "fg_ds = \<lparr>fg_p = fg_params_w, fg_data_dir_base = ''/data/ADE20K_2016_07_26/..'',
     fg_img_path_list = [''/data/ADE20K_2016_07_26/../ADE20K_2016_07_26/images/training/a/ADE_train_00000001.jpg''],
     fg_seg_path_list = [''/data/ADE20K_2016_07_26/../ADE20K_2016_07_26/images/training/a/ADE_train_00000001_seg.png''],
     fg_dataset_size = 1\<rparr>"

definition dense_id :: "string set \<Rightarrow> string list \<Rightarrow> int \<Rightarrow> int" where
  "dense_id classes names v =
     (if 1 \<le> v \<and> v \<le> int (length names) \<and> names ! nat (v - 1) \<in> classes
      then int (length (filter (\<lambda>n. n \<in> classes) (take (nat v) names)))
      else 0)"

definition desc_line :: "string \<Rightarrow> string \<Rightarrow> string" where
  "desc_line idx name = idx @ [CHR 0x09] @ ''0.1576'' @ [CHR 0x09] @ name @ [CHR 0x0A]"

definition object_info :: "string list" where
  "object_info = [desc_line ''Idx'' ''Name'', desc_line ''1'' ''wall'',
     desc_line ''2'' ''building, edifice'', desc_line ''3'' ''sky'',
     desc_line ''4'' ''floor, flooring'']"

definition seg_gray :: pil_image where
  "seg_gray = \<lparr>im_size = (3, 1), im_bands = 1, im_bytes = [4, 2, 1]\<rparr>"

definition ade_params_w :: ade_params where
  "ade_params_w = \<lparr>ade_root_dir = ''/data/ADEChallengeData2016/'',
     ade_classes = {''wall'', ''floor, flooring''}\<rparr>"

definition ade_world :: world where
  "ade_world = \<lparr>image_files =
       [''/data/ADEChallengeData2016/images/training/ADE_train_00000001.jpg'' \<mapsto> img_jpg,
        ''/data/ADEChallengeData2016/annotations/training/ADE_train_00000001.png'' \<mapsto> seg_gray],
     text_files =
       [''/data/ADEChallengeData2016/sceneCategories.txt'' \<mapsto>
          [''ADE_train_00000001 bedroom'' @ [CHR 0x0A], ''ADE_val_00000001 kitchen'' @ [CHR 0x0A]],
        ''/data/ADEChallengeData2016/objectInfo150.txt'' \<mapsto> object_info],
     coco_files = Map.empty, mat_files = Map.empty, convert_RGB = id\<rparr>"

definition ade_ds :: ade_dataset where
  "ade_ds = \<lparr>ade_p = ade_params_w,
     ade_img_path_list = [''/data/ADEChallengeData2016/images/training/ADE_train_00000001.jpg''],
     ade_scenario_list = [''bedroom''],
     ade_seg_path_list = [''/data/ADEChallengeData2016/annotations/training/ADE_train_00000001.png''],
     ade_dataset_size = 1,
     ade_class_map = dense_id (ade_classes ade_params_w) (class_name_list object_info)\<rparr>"

text \<open>
  The names of the rows of the class-name manifest, as the specification reads it: the
  rows are the lines after the header, and the name of a row is its last tab-separated
  field, without the end of line when the line has one and without surrounding blanks.
  It differs from \<open>class_name_list\<close>, the code's parse, only in that a line with no end
  of line keeps its last character.
\<close>

definition spec_row_names :: "string list \<Rightarrow> string list" where
  "spec_row_names class_desc =
     map (\<lambda>line. py_strip CHR '' ''
            (last (py_split CHR 0x09
               (if line \<noteq> [] \<and> last line = CHR 0x0A then butlast line else line))))
       (tl class_desc)"

text \<open>
  The manifest \<open>object_info\<close> in a file that does not end with an end of line, and the
  file system and adapter that go with it.
\<close>

definition object_info_no_eol :: "string list" where
  "object_info_no_eol = [desc_line ''Idx'' ''Name'', desc_line ''1'' ''wall'',
     desc_line ''2'' ''building, edifice'', desc_line ''3'' ''sky'',
     ''4'' @ [CHR 0x09] @ ''0.1576'' @ [CHR 0x09] @ ''floor, flooring'']"

definition ade_world_no_eol :: world where
  "ade_world_no_eol = \<lparr>image_files =
       [''/data/ADEChallengeData2016/images/training/ADE_train_00000001.jpg'' \<mapsto> img_jpg,
        ''/data/ADEChallengeData2016/annotations/training/ADE_train_00000001.png'' \<mapsto> seg_gray],
     text_files =
       [''/data/ADEChallengeData2016/sceneCategories.txt'' \<mapsto>
          [''ADE_train_00000001 bedroom'' @ [CHR 0x0A], ''ADE_val_00000001 kitchen'' @ [CHR 0x0A]],
        ''/data/ADEChallengeData2016/objectInfo150.txt'' \<mapsto> object_info_no_eol],
     coco_files = Map.empty, mat_files = Map.empty, convert_RGB = id\<rparr>"

definition ade_ds_no_eol :: ade_dataset where
  "ade_ds_no_eol = \<lparr>ade_p = ade_params_w,
     ade_img_path_list = [''/data/ADEChallengeData2016/images/training/ADE_train_00000001.jpg''],
     ade_scenario_list = [''bedroom''],
     ade_seg_path_list = [''/data/ADEChallengeData2016/annotations/training/ADE_train_00000001.png''],
     ade_dataset_size = 1,
     ade_class_map = dense_id (ade_classes ade_params_w) (class_name_list object_info_no_eol)\<rparr>"

section \<open>Facts about the encoder\<close>

lemma onehot_shape:
  assumes "catgory_to_onehot n img = Inr t" and "im_bands img = 1"
  shows "length t = nat n"
    and "c < nat n \<Longrightarrow> i < snd (im_size img) \<Longrightarrow> j < fst (im_size img) \<Longrightarrow>
         t ! c ! i ! j = of_bool ((word_of_int (1 + int c) :: u8) = grid_at img i j)"
  using assms
  by (auto simp: catgory_to_onehot_def pil_to_tensor_def arange_u8_def eq_n11_def grid_at_def
      Let_def split: if_splits)

lemma id_eq_iff:
  assumes "n \<le> 255" "c < nat n"
  shows "((word_of_int (1 + int c) :: u8) = v) \<longleftrightarrow> (unat v = Suc c)"
proof -
  have b: "1 + int c < 256" using assms by linarith
  have "(word_of_int (1 + int c) :: u8) = of_nat (Suc c)" by simp
  then have "unat (word_of_int (1 + int c) :: u8) = Suc c mod 2 ^ 8"
    by (simp only: unat_of_nat) simp
  then have u: "unat (word_of_int (1 + int c) :: u8) = Suc c"
    using b by simp
  have "((word_of_int (1 + int c) :: u8) = v) \<longleftrightarrow> unat (word_of_int (1 + int c) :: u8) = unat v"
    by (simp add: word_unat_eq_iff)
  with u show ?thesis by auto
qed

lemma sum_list_nth_map: "sum_list (map g t) = (\<Sum>c<length t. g (t ! c))"
  by (metis (no_types, lifting) atLeast0LessThan  sum_list_sum_nth length_map nth_map sum.cong atLeastLessThan_iff)

lemma sum_single: "(\<Sum>c<N. (of_bool (u = Suc c) :: real)) = of_bool (1 \<le> u \<and> u \<le> N)"
  by (induction N) auto

text \<open>
  Claim C4, as amended. For a one-band class-map grid and \<open>num_classes\<close> at most 255, the
  one-hot tensor has \<open>num_classes\<close> channels; channel \<open>c\<close> (for \<open>c\<close> in 1..num_classes)
  is 1 exactly where the grid value equals \<open>c\<close>; no pixel has two channels equal to 1;
  and the sum over the channel axis is 0 or 1 at every pixel.
\<close>

theorem onehot_at_most_one:
  assumes "catgory_to_onehot n img = Inr t" and "im_bands img = 1" and "n \<le> 255"
    and "i < snd (im_size img)" and "j < fst (im_size img)"
  shows "length t = nat n
     \<and> (\<forall>c\<in>{1..nat n}. t ! (c - 1) ! i ! j = (if unat (grid_at img i j) = c then 1 else 0))
     \<and> (\<forall>c<nat n. \<forall>d<nat n. t ! c ! i ! j = 1 \<and> t ! d ! i ! j = 1 \<longrightarrow> c = d)
     \<and> channel_sum t i j \<in> {0, 1}"
proof -
  have len: "length t = nat n" using onehot_shape(1)[OF assms(1,2)] .
  have el: "t ! c ! i ! j = of_bool (unat (grid_at img i j) = Suc c)" if "c < nat n" for c
    using onehot_shape(2)[OF assms(1,2) that assms(4,5)] id_eq_iff[OF assms(3) that] by simp
  have a: "\<forall>c\<in>{1..nat n}. t ! (c - 1) ! i ! j = (if unat (grid_at img i j) = c then 1 else 0)"
  proof
    fix c assume "c \<in> {1..nat n}"
    then have "c - 1 < nat n" "Suc (c - 1) = c" by auto
    then show "t ! (c - 1) ! i ! j = (if unat (grid_at img i j) = c then 1 else 0)"
      using el[of "c - 1"] by simp
  qed
  have b: "\<forall>c<nat n. \<forall>d<nat n. t ! c ! i ! j = 1 \<and> t ! d ! i ! j = 1 \<longrightarrow> c = d"
    using el by (auto split: if_splits)
  have "channel_sum t i j = (\<Sum>c<nat n. t ! c ! i ! j)"
    by (simp add: channel_sum_def sum_list_nth_map len)
  also have "\<dots> = (\<Sum>c<nat n. of_bool (unat (grid_at img i j) = Suc c))"
    using el by simp
  also have "\<dots> = of_bool (1 \<le> unat (grid_at img i j) \<and> unat (grid_at img i j) \<le> nat n)"
    by (rule sum_single)
  finally have c: "channel_sum t i j \<in> {0, 1}" by simp
  from len a b c show ?thesis by blast
qed

lemma onehot_img12: "catgory_to_onehot 3 img12 = Inr [[[0, 0]], [[1, 0]], [[0, 0]]]"
  by (simp add: catgory_to_onehot_def pil_to_tensor_def arange_u8_def eq_n11_def img12_def Let_def upt_rec)

theorem onehot_at_most_one_witness:
  "catgory_to_onehot 3 img12 = Inr [[[0, 0]], [[1, 0]], [[0, 0]]]
   \<and> channel_sum [[[0, 0]], [[1, 0]], [[0, 0]]] 0 0 \<in> {0, 1}"
proof -
  have b: "im_bands img12 = 1" and n: "(3::int) \<le> 255"
    and i: "0 < snd (im_size img12)" and j: "0 < fst (im_size img12)"
    by (simp_all add: img12_def)
  from onehot_at_most_one [OF onehot_img12 b n i j] onehot_img12 show ?thesis
    by blast
qed

lemma onehot_1x1:
  assumes "0 \<le> n" "c < nat n"
  shows "projr (catgory_to_onehot n \<lparr>im_size = (1, 1), im_bands = 1, im_bytes = [v]\<rparr>) ! c ! 0 ! 0
     = of_bool ((word_of_int (1 + int c) :: u8) = v)"
    and "length (projr (catgory_to_onehot n \<lparr>im_size = (1, 1), im_bands = 1, im_bytes = [v]\<rparr>)) = nat n"
  using assms
  by (auto simp: catgory_to_onehot_def pil_to_tensor_def arange_u8_def eq_n11_def Let_def)

text \<open>
  Claim C4 as stated, for every \<open>num_classes\<close>, fails at \<open>num_classes\<close> = 257: the class
  ids are bytes, 257 is stored as 1, and on a pixel of value 1 both channel 1 and channel
  257 (indices 0 and 256) are 1.
\<close>

theorem onehot_257_counterexample:
  "projr (catgory_to_onehot 257 img_one) ! 0 ! 0 ! 0 = 1
   \<and> projr (catgory_to_onehot 257 img_one) ! 256 ! 0 ! 0 = 1
   \<and> length (projr (catgory_to_onehot 257 img_one)) = 257"
  unfolding img_one_def
  using onehot_1x1 [of 257 0 1] onehot_1x1 [of 257 256 1] by simp

lemma onehot_returns:
  assumes "im_bands img = 1" and "0 \<le> n"
    and "length (im_bytes img) = snd (im_size img) * fst (im_size img)"
  shows "\<exists>t. catgory_to_onehot n img = Inr t"
  using assms
  by (simp add: catgory_to_onehot_def pil_to_tensor_def arange_u8_def eq_n11_def Let_def)

lemma onehot_view_raises:
  assumes "length (im_bytes img) \<noteq> snd (im_size img) * fst (im_size img) * im_bands img"
  shows "catgory_to_onehot n img = Inl RuntimeError"
  using assms
  by (simp add: catgory_to_onehot_def pil_to_tensor_def Let_def)

text \<open>
  Claim C10, as amended. Let the class-map grid be a one-band image and \<open>num_classes\<close>
  be between 0 and 255. If the grid has one byte per pixel, the encoder returns a tensor
  of \<open>num_classes\<close> channels, and at every pixel whose grid value is outside
  [1, num_classes] every channel is 0: the pixel is encoded as background, not rejected.
  If the grid has any other number of bytes, as a grid of wider integers has, the encoder
  raises RuntimeError (the view in \<open>pil_to_tensor\<close>).
\<close>

theorem onehot_background_all_zero:
  assumes "im_bands img = 1" and "0 \<le> n" and "n \<le> 255"
  shows "(length (im_bytes img) = snd (im_size img) * fst (im_size img) \<longrightarrow>
            (\<exists>t. catgory_to_onehot n img = Inr t \<and> length t = nat n \<and>
               (\<forall>i < snd (im_size img). \<forall>j < fst (im_size img).
                  \<not> (1 \<le> uint (grid_at img i j) \<and> uint (grid_at img i j) \<le> n) \<longrightarrow>
                  (\<forall>c<length t. t ! c ! i ! j = 0))))
       \<and> (length (im_bytes img) \<noteq> snd (im_size img) * fst (im_size img) \<longrightarrow>
            catgory_to_onehot n img = Inl RuntimeError)"
proof (intro conjI impI)
  assume len: "length (im_bytes img) = snd (im_size img) * fst (im_size img)"
  from onehot_returns[OF assms(1,2) len] obtain t where t: "catgory_to_onehot n img = Inr t" ..
  have lt: "length t = nat n" using onehot_shape(1)[OF t assms(1)] .
  have z: "\<forall>i < snd (im_size img). \<forall>j < fst (im_size img).
                  \<not> (1 \<le> uint (grid_at img i j) \<and> uint (grid_at img i j) \<le> n) \<longrightarrow>
                  (\<forall>c<length t. t ! c ! i ! j = 0)"
  proof (intro allI impI)
    fix i j c
    assume i: "i < snd (im_size img)" and j: "j < fst (im_size img)"
      and o: "\<not> (1 \<le> uint (grid_at img i j) \<and> uint (grid_at img i j) \<le> n)"
      and "c < length t"
    then have c: "c < nat n" using lt by simp
    have "int (unat (grid_at img i j)) = uint (grid_at img i j)"
      by simp
    then have "unat (grid_at img i j) \<noteq> Suc c"
      using o c by linarith
    then show "t ! c ! i ! j = 0"
      using onehot_shape(2)[OF t assms(1) c i j] id_eq_iff[OF assms(3) c] by simp
  qed
  from t lt z
  show "\<exists>t. catgory_to_onehot n img = Inr t \<and> length t = nat n \<and>
               (\<forall>i < snd (im_size img). \<forall>j < fst (im_size img).
                  \<not> (1 \<le> uint (grid_at img i j) \<and> uint (grid_at img i j) \<le> n) \<longrightarrow>
                  (\<forall>c<length t. t ! c ! i ! j = 0))"
    by blast
next
  assume "length (im_bytes img) \<noteq> snd (im_size img) * fst (im_size img)"
  then have "length (im_bytes img) \<noteq> snd (im_size img) * fst (im_size img) * im_bands img"
    using assms(1) by simp
  then show "catgory_to_onehot n img = Inl RuntimeError" by (rule onehot_view_raises)
qed

text \<open>
  Claim C10 as stated, for every grid and every \<open>num_classes\<close>, fails in two ways. At
  \<open>num_classes\<close> = 256 the class id 256 is stored as the byte 0, so a pixel of value 0,
  which is outside [1, 256], has channel 256 (index 255) equal to 1. And a one-band grid
  of 32-bit integers holding the packed id 517, which is above \<open>num_classes\<close> = 21, is not
  encoded as background: the encoder raises RuntimeError. A negative \<open>num_classes\<close> raises
  too (the range of class ids has its upper bound below its lower bound).
\<close>

theorem onehot_background_counterexample:
  "grid_at img_zero 0 0 = 0
   \<and> projr (catgory_to_onehot 256 img_zero) ! 255 ! 0 ! 0 = 1
   \<and> length (projr (catgory_to_onehot 256 img_zero)) = 256
   \<and> im_bands img_wide = 1
   \<and> catgory_to_onehot 21 img_wide = Inl RuntimeError
   \<and> catgory_to_onehot (- 1) img_zero = Inl RuntimeError"
proof -
  have a: "grid_at img_zero 0 0 = 0
   \<and> projr (catgory_to_onehot 256 img_zero) ! 255 ! 0 ! 0 = 1
   \<and> length (projr (catgory_to_onehot 256 img_zero)) = 256"
    unfolding img_zero_def
    using onehot_1x1 [of 256 255 0] by (simp add: grid_at_def)
  have b: "im_bands img_wide = 1" by (simp add: img_wide_def)
  have c: "catgory_to_onehot 21 img_wide = Inl RuntimeError"
    by (simp add: catgory_to_onehot_def pil_to_tensor_def img_wide_def Let_def)
  have d: "catgory_to_onehot (- 1) img_zero = Inl RuntimeError"
    by (simp add: catgory_to_onehot_def pil_to_tensor_def arange_u8_def img_zero_def Let_def)
  from a b c d show ?thesis by simp
qed

lemma onehot_img13: "catgory_to_onehot 2 img13 = Inr [[[0, 0, 0]], [[0, 0, 1]]]"
  by (simp add: catgory_to_onehot_def pil_to_tensor_def arange_u8_def eq_n11_def img13_def Let_def upt_rec)

theorem onehot_background_all_zero_witness:
  "catgory_to_onehot 2 img13 = Inr [[[0, 0, 0]], [[0, 0, 1]]] \<and>
   grid_at img13 0 1 = 200 \<and>
   [[[0, 0, 0]], [[0, 0, 1::real]]] ! 0 ! 0 ! 1 = 0 \<and>
   [[[0, 0, 0]], [[0, 0, 1::real]]] ! 1 ! 0 ! 1 = 0 \<and>
   catgory_to_onehot 2 img_wide = Inl RuntimeError"
proof -
  have g: "grid_at img13 0 1 = 200" by (simp add: grid_at_def img13_def)
  have b: "im_bands img13 = 1" and n0: "(0::int) \<le> 2" and n: "(2::int) \<le> 255"
    by (simp_all add: img13_def)
  have l: "length (im_bytes img13) = snd (im_size img13) * fst (im_size img13)"
    by (simp add: img13_def)
  have i: "0 < snd (im_size img13)" and j: "1 < fst (im_size img13)"
    by (simp_all add: img13_def)
  have o: "\<not> (1 \<le> uint (grid_at img13 0 1) \<and> uint (grid_at img13 0 1) \<le> 2)"
    by (simp add: grid_at_def img13_def)
  from onehot_background_all_zero [OF b n0 n] l obtain t where
    t: "catgory_to_onehot 2 img13 = Inr t" and lt: "length t = nat 2"
    and z: "\<forall>i < snd (im_size img13). \<forall>j < fst (im_size img13).
                  \<not> (1 \<le> uint (grid_at img13 i j) \<and> uint (grid_at img13 i j) \<le> 2) \<longrightarrow>
                  (\<forall>c<length t. t ! c ! i ! j = 0)"
    by blast
  from z i j o have zc: "\<forall>c<length t. t ! c ! 0 ! 1 = 0" by blast
  have te: "t = [[[0, 0, 0]], [[0, 0, 1]]]" using t onehot_img13 by simp
  have c0: "[[[0, 0, 0]], [[0, 0, 1::real]]] ! 0 ! 0 ! 1 = 0"
    and c1: "[[[0, 0, 0]], [[0, 0, 1::real]]] ! 1 ! 0 ! 1 = 0"
    using zc unfolding te by simp_all
  have bw: "im_bands img_wide = 1"
    and lw: "length (im_bytes img_wide) \<noteq> snd (im_size img_wide) * fst (im_size img_wide)"
    by (simp_all add: img_wide_def)
  from onehot_background_all_zero [OF bw n0 n] lw
  have w: "catgory_to_onehot 2 img_wide = Inl RuntimeError" by blast
  from onehot_img13 g c0 c1 w show ?thesis by blast
qed

section \<open>Facts about the polygon-annotation adapter\<close>

lemma coco_ann_loop_shape:
  assumes "length (data seg) = h * w" "length (data loss) = h * w"
  shows "length (data (fst (coco_ann_loop ma cm h w anns (seg, loss)))) = h * w
       \<and> length (data (snd (coco_ann_loop ma cm h w anns (seg, loss)))) = h * w
       \<and> shape (fst (coco_ann_loop ma cm h w anns (seg, loss))) = shape seg
       \<and> shape (snd (coco_ann_loop ma cm h w anns (seg, loss))) = shape loss"
  using assms
proof (induction anns arbitrary: seg loss)
  case Nil
  then show ?case by simp
next
  case (Cons a anns)
  show ?case
  proof (cases "iscrowd a \<noteq> 0 \<or> area a < ma")
    case True
    have l: "length (data (tmap2 (AND) loss (tmap NOT (annToMask h w a)))) = h * w"
      using Cons.prems by (simp add: tmap2_def tmap_def annToMask_def)
    show ?thesis using True Cons.IH[OF Cons.prems(1) l]
      by (simp add: Let_def tmap2_def)
  next
    case False
    show ?thesis
    proof (cases "cm (category_id a)")
      case None
      then show ?thesis using False Cons.IH[OF Cons.prems] by (simp add: Let_def)
    next
      case (Some c)
      have l: "length (data (tmap2 max seg (tmap (\<lambda>v. v * word_of_int c) (annToMask h w a)))) = h * w"
        using Cons.prems by (simp add: tmap2_def tmap_def annToMask_def)
      show ?thesis using False Some Cons.IH[OF l Cons.prems(2)]
        by (simp add: Let_def tmap2_def)
    qed
  qed
qed

lemma coco_ann_loop_loss_nth:
  assumes "length (data seg) = h * w" "length (data loss) = h * w" "k < h * w"
  shows "data (snd (coco_ann_loop ma cm h w anns (seg, loss))) ! k =
     (if \<exists>a\<in>set anns. (iscrowd a \<noteq> 0 \<or> area a < ma) \<and> region a (k div w) (k mod w)
      then data loss ! k AND NOT 1 else data loss ! k)"
  using assms
proof (induction anns arbitrary: seg loss)
  case Nil
  then show ?case by simp
next
  case (Cons a anns)
  show ?case
  proof (cases "iscrowd a \<noteq> 0 \<or> area a < ma")
    case True
    let ?l = "tmap2 (AND) loss (tmap NOT (annToMask h w a))"
    have l: "length (data ?l) = h * w"
      using Cons.prems by (simp add: tmap2_def tmap_def annToMask_def)
    have v: "data ?l ! k = (if region a (k div w) (k mod w) then data loss ! k AND NOT 1 else data loss ! k)"
      using Cons.prems by (simp add: tmap2_def tmap_def annToMask_def)
    have idem: "(x AND NOT 1) AND NOT 1 = x AND NOT (1::u8)" for x
      by (simp add: and.assoc)
    show ?thesis using True Cons.IH[OF Cons.prems(1) l Cons.prems(3)] v idem
      by (auto simp add: Let_def)
  next
    case False
    show ?thesis
    proof (cases "cm (category_id a)")
      case None
      then show ?thesis using False Cons.IH[OF Cons.prems] by (auto simp add: Let_def)
    next
      case (Some c)
      have l: "length (data (tmap2 max seg (tmap (\<lambda>v. v * word_of_int c) (annToMask h w a)))) = h * w"
        using Cons.prems by (simp add: tmap2_def tmap_def annToMask_def)
      show ?thesis using False Some Cons.IH[OF l Cons.prems(2,3)]
        by (auto simp add: Let_def)
    qed
  qed
qed

lemma finite_seg_ids: "finite (seg_ids ma cm anns i j)"
proof -
  have "seg_ids ma cm anns i j \<subseteq> (\<lambda>a. the (cm (category_id a))) ` set anns"
    by (force simp: seg_ids_def)
  then show ?thesis by (rule finite_subset) simp
qed

lemma seg_ids_Cons:
  "seg_ids ma cm (a # anns) i j =
     (if iscrowd a = 0 \<and> \<not> area a < ma \<and> region a i j
      then (case cm (category_id a) of None \<Rightarrow> {} | Some c \<Rightarrow> {c}) else {})
     \<union> seg_ids ma cm anns i j"
  by (auto simp: seg_ids_def split: option.splits)

lemma uint_byte_id: "0 \<le> c \<Longrightarrow> c \<le> 255 \<Longrightarrow> uint (word_of_int c :: u8) = c"
  by (simp add: uint_word_of_int take_bit_eq_mod)

lemma uint_max: "uint (max a b) = max (uint a) (uint (b :: u8))"
  by (simp add: max_def word_le_def)

lemma coco_ann_loop_seg_word:
  assumes "length (data seg) = h * w" "length (data loss) = h * w" "k < h * w"
  shows "data (fst (coco_ann_loop ma cm h w anns (seg, loss))) ! k =
     Max (insert (data seg ! k) (word_of_int ` seg_ids ma cm anns (k div w) (k mod w)))"
  using assms(1,2)
proof (induction anns arbitrary: seg loss)
  case Nil
  then show ?case by (simp add: seg_ids_def)
next
  case (Cons a anns)
  let ?S = "seg_ids ma cm anns (k div w) (k mod w)"
  let ?W = "word_of_int ` ?S :: u8 set"
  have fin: "finite ?W" using finite_seg_ids by simp
  show ?case
  proof (cases "iscrowd a \<noteq> 0 \<or> area a < ma")
    case True
    have l: "length (data (tmap2 (AND) loss (tmap NOT (annToMask h w a)))) = h * w"
      using Cons.prems by (simp add: tmap2_def tmap_def annToMask_def)
    have "seg_ids ma cm (a # anns) (k div w) (k mod w) = ?S"
      using True by (auto simp: seg_ids_Cons)
    then show ?thesis using True Cons.IH[OF Cons.prems(1) l]
      by (simp add: Let_def)
  next
    case False
    show ?thesis
    proof (cases "cm (category_id a)")
      case None
      have "seg_ids ma cm (a # anns) (k div w) (k mod w) = ?S"
        using None by (auto simp: seg_ids_Cons)
      then show ?thesis using None False Cons.IH[OF Cons.prems] by (simp add: Let_def)
    next
      case (Some c)
      let ?seg1 = "tmap2 max seg (tmap (\<lambda>v. v * word_of_int c) (annToMask h w a))"
      have l: "length (data ?seg1) = h * w"
        using Cons.prems by (simp add: tmap2_def tmap_def annToMask_def)
      have v: "data ?seg1 ! k = max (data seg ! k) (if region a (k div w) (k mod w) then word_of_int c else 0)"
        using Cons.prems assms(3) by (simp add: tmap2_def tmap_def annToMask_def)
      have step: "data (fst (coco_ann_loop ma cm h w (a # anns) (seg, loss))) ! k
          = Max (insert (data ?seg1 ! k) ?W)"
        using False Some Cons.IH[OF l Cons.prems(2)] by (simp add: Let_def)
      show ?thesis
      proof (cases "region a (k div w) (k mod w)")
        case True
        have S: "seg_ids ma cm (a # anns) (k div w) (k mod w) = insert c ?S"
          using True False Some by (auto simp: seg_ids_Cons)
        have "data ?seg1 ! k = max (data seg ! k) (word_of_int c)"
          using v True by simp
        then have "Max (insert (data ?seg1 ! k) ?W) = Max (insert (data seg ! k) (insert (word_of_int c) ?W))"
          using fin by (cases "?W = {}") (simp_all add: max.assoc)
        with step S show ?thesis by simp
      next
        case False
        have S: "seg_ids ma cm (a # anns) (k div w) (k mod w) = ?S"
          using False by (auto simp: seg_ids_Cons)
        have "data ?seg1 ! k = data seg ! k"
          using v False by (simp add: max_def)
        with step S show ?thesis by simp
      qed
    qed
  qed
qed

lemma uint_Max_bytes:
  assumes "finite S" "\<forall>c\<in>S. 0 \<le> c \<and> c \<le> 255"
  shows "uint (Max (insert x (word_of_int ` S)) :: u8) = Max (insert (uint x) S)"
  using assms
proof (induction S rule: finite_induct)
  case empty
  then show ?case by simp
next
  case (insert c S)
  have "insert x (word_of_int ` insert c S) = insert (word_of_int c) (insert x (word_of_int ` S))"
    by auto
  moreover have "insert (uint x) (insert c S) = insert c (insert (uint x) S)" by auto
  ultimately show ?case using insert
    by (simp add: uint_max uint_byte_id del: insert_commute)
qed

lemma coco_ann_loop_seg_nth:
  assumes "length (data seg) = h * w" "length (data loss) = h * w" "k < h * w"
    and "\<forall>c\<in>ran cm. 0 \<le> c \<and> c \<le> 255"
  shows "uint (data (fst (coco_ann_loop ma cm h w anns (seg, loss))) ! k) =
     Max (insert (uint (data seg ! k)) (seg_ids ma cm anns (k div w) (k mod w)))"
proof -
  have "\<forall>c\<in>seg_ids ma cm anns (k div w) (k mod w). 0 \<le> c \<and> c \<le> 255"
    using assms(4) by (auto simp: seg_ids_def ran_def)
  then show ?thesis
    using coco_ann_loop_seg_word[OF assms(1-3)] uint_Max_bytes[OF finite_seg_ids]
    by simp
qed

lemma seg_ids_cong: "set anns' = set anns \<Longrightarrow> seg_ids ma cm anns' i j = seg_ids ma cm anns i j"
  by (simp add: seg_ids_def)

lemma coco_ann_loop_perm:
  assumes "length (data seg) = h * w" "length (data loss) = h * w" "set anns' = set anns"
  shows "coco_ann_loop ma cm h w anns' (seg, loss) = coco_ann_loop ma cm h w anns (seg, loss)"
proof -
  let ?r' = "coco_ann_loop ma cm h w anns' (seg, loss)" and ?r = "coco_ann_loop ma cm h w anns (seg, loss)"
  note sh' = coco_ann_loop_shape[OF assms(1,2), of ma cm anns']
  note sh = coco_ann_loop_shape[OF assms(1,2), of ma cm anns]
  have "data (fst ?r') = data (fst ?r)"
  proof (rule nth_equalityI)
    show "length (data (fst ?r')) = length (data (fst ?r))" using sh sh' by simp
    fix k assume "k < length (data (fst ?r'))"
    then have k: "k < h * w" using sh' by simp
    show "data (fst ?r') ! k = data (fst ?r) ! k"
      using coco_ann_loop_seg_word[OF assms(1,2) k] seg_ids_cong[OF assms(3)] by simp
  qed
  moreover have "data (snd ?r') = data (snd ?r)"
  proof (rule nth_equalityI)
    show "length (data (snd ?r')) = length (data (snd ?r))" using sh sh' by simp
    fix k assume "k < length (data (snd ?r'))"
    then have k: "k < h * w" using sh' by simp
    show "data (snd ?r') ! k = data (snd ?r) ! k"
      using coco_ann_loop_loss_nth[OF assms(1,2) k] assms(3) by simp
  qed
  moreover have "shape (fst ?r') = shape (fst ?r)" "shape (snd ?r') = shape (snd ?r)"
    using sh sh' by simp_all
  ultimately have "fst ?r' = fst ?r" "snd ?r' = snd ?r" by simp_all
  then show ?thesis by (simp add: prod_eq_iff)
qed

lemma coco_get_raw_data_eq:
  assumes "py_getitem (co_img_ids ds) key = Inr img_id" and "coco_get_img wd ds img_id = Inr img"
  shows "coco_get_raw_data wd ds key =
     Inr \<lparr>image = img,
          seg_mask = fst (coco_ann_loop (min_area (co_p ds)) (co_class_map ds) (snd (im_size img))
             (fst (im_size img)) (imgToAnns (co_coco ds) img_id)
             (seg0 (snd (im_size img)) (fst (im_size img)),
              tmap (\<lambda>_. 1) (seg0 (snd (im_size img)) (fst (im_size img))))),
          loss_mask = snd (coco_ann_loop (min_area (co_p ds)) (co_class_map ds) (snd (im_size img))
             (fst (im_size img)) (imgToAnns (co_coco ds) img_id)
             (seg0 (snd (im_size img)) (fst (im_size img)),
              tmap (\<lambda>_. 1) (seg0 (snd (im_size img)) (fst (im_size img)))))\<rparr>"
  using assms by (simp add: coco_get_raw_data_def Let_def seg0_def split: prod.splits)

lemma seg0_props:
  "length (data (seg0 h w)) = h * w" "length (data (tmap f (seg0 h w))) = h * w"
  "shape (seg0 h w) = [h, w]" "shape (tmap f (seg0 h w)) = [h, w]"
  "k < h * w \<Longrightarrow> data (seg0 h w) ! k = 0" "k < h * w \<Longrightarrow> data (tmap f (seg0 h w)) ! k = f 0"
  by (simp_all add: seg0_def tmap_def)

lemma pixel_index: "i < h \<Longrightarrow> j < w \<Longrightarrow> i * w + j < h * (w::nat)"
proof -
  assume a: "i < h" "j < w"
  then have "i * w + j < i * w + w" by simp
  also have "\<dots> = Suc i * w" by simp
  also have "\<dots> \<le> h * w" using a(1) by (intro mult_le_mono1) simp
  finally show ?thesis .
qed

lemma with_annotations_simps:
  "co_img_ids (with_annotations ds img_id anns) = co_img_ids ds"
  "coco_get_img wd (with_annotations ds img_id anns) x = coco_get_img wd ds x"
  "imgToAnns (co_coco (with_annotations ds img_id anns)) img_id = anns"
  "co_p (with_annotations ds img_id anns) = co_p ds"
  "co_class_map (with_annotations ds img_id anns) = co_class_map ds"
  by (simp_all add: with_annotations_def coco_get_img_def split: option.splits)

lemma coco_get_raw_data_perm:
  assumes "py_getitem (co_img_ids ds) key = Inr img_id" and "coco_get_img wd ds img_id = Inr img"
    and "mset anns' = mset (imgToAnns (co_coco ds) img_id)"
  shows "coco_get_raw_data wd (with_annotations ds img_id anns') key = coco_get_raw_data wd ds key"
proof -
  have s: "set anns' = set (imgToAnns (co_coco ds) img_id)"
    using assms(3) by (rule mset_eq_setD)
  have a: "py_getitem (co_img_ids (with_annotations ds img_id anns')) key = Inr img_id"
    and b: "coco_get_img wd (with_annotations ds img_id anns') img_id = Inr img"
    using assms by (simp_all add: with_annotations_simps)
  show ?thesis
    unfolding coco_get_raw_data_eq[OF a b] coco_get_raw_data_eq[OF assms(1,2)]
    using coco_ann_loop_perm[OF seg0_props(1,2) s]
    by (simp add: with_annotations_simps)
qed

text \<open>
  Claim C6. In the polygon-annotation adapter, the loss mask returned by \<open>get_raw_data\<close>
  has the shape of the image; a pixel is 0 if and only if some annotation that is a crowd
  or whose area is below the minimum covers it, and is 1 otherwise; and the sample is the
  same for every order of the annotations, whether the annotations of valid classes come
  before or after the exclusions.
\<close>

theorem coco_loss_mask_exclusions:
  assumes "coco_get_raw_data wd ds key = Inr s"
    and "py_getitem (co_img_ids ds) key = Inr img_id"
    and "coco_get_img wd ds img_id = Inr img"
    and "i < snd (im_size img)" and "j < fst (im_size img)"
  shows "shape (loss_mask s) = [snd (im_size img), fst (im_size img)]
     \<and> (data (loss_mask s) ! (i * fst (im_size img) + j) = 0 \<longleftrightarrow>
          (\<exists>a\<in>set (imgToAnns (co_coco ds) img_id).
             (iscrowd a \<noteq> 0 \<or> area a < min_area (co_p ds)) \<and> region a i j))
     \<and> data (loss_mask s) ! (i * fst (im_size img) + j) \<in> {0, 1}
     \<and> (\<forall>anns'. mset anns' = mset (imgToAnns (co_coco ds) img_id) \<longrightarrow>
          coco_get_raw_data wd (with_annotations ds img_id anns') key = Inr s)"
proof -
  let ?h = "snd (im_size img)" and ?w = "fst (im_size img)"
  let ?k = "i * ?w + j"
  have k: "?k < ?h * ?w" using assms(4,5) by (rule pixel_index)
  have dm: "?k div ?w = i" "?k mod ?w = j" using assms(5) by simp_all
  have l: "loss_mask s = snd (coco_ann_loop (min_area (co_p ds)) (co_class_map ds) ?h ?w
             (imgToAnns (co_coco ds) img_id) (seg0 ?h ?w, tmap (\<lambda>_. 1) (seg0 ?h ?w)))"
    using assms(1) unfolding coco_get_raw_data_eq[OF assms(2,3)] by auto
  have sh: "shape (loss_mask s) = [?h, ?w]"
    unfolding l using coco_ann_loop_shape[OF seg0_props(1,2)] by (simp add: seg0_props)
  have v: "data (loss_mask s) ! ?k =
     (if \<exists>a\<in>set (imgToAnns (co_coco ds) img_id).
           (iscrowd a \<noteq> 0 \<or> area a < min_area (co_p ds)) \<and> region a i j then 0 else 1)"
    unfolding l coco_ann_loop_loss_nth[OF seg0_props(1,2) k] dm
    using k by (simp add: seg0_props)
  have p: "\<forall>anns'. mset anns' = mset (imgToAnns (co_coco ds) img_id) \<longrightarrow>
          coco_get_raw_data wd (with_annotations ds img_id anns') key = Inr s"
    using coco_get_raw_data_perm[OF assms(2,3)] assms(1) by simp
  from sh v p show ?thesis by simp
qed

lemma coco_class_map_loop_ran:
  "ran (coco_class_map_loop classes cs idx m)
     \<subseteq> ran m \<union> {idx ..< idx + int (length (filter (\<lambda>c. snd c \<in> classes) cs))}"
proof (induction cs arbitrary: idx m)
  case Nil
  then show ?case by simp
next
  case (Cons c cs)
  obtain cat_id name where c: "c = (cat_id, name)" by (cases c)
  let ?n = "int (length (filter (\<lambda>c. snd c \<in> classes) cs))"
  show ?case
  proof (cases "name \<in> classes")
    case True
    let ?m' = "m(cat_id \<mapsto> idx)"
    have r: "ran ?m' \<subseteq> insert idx (ran m)"
      by (auto simp: ran_def split: if_splits)
    have ih: "ran (coco_class_map_loop classes cs (idx + 1) ?m') \<subseteq> ran ?m' \<union> {idx + 1 ..< idx + 1 + ?n}"
      by (rule Cons.IH)
    have "ran ?m' \<union> {idx + 1 ..< idx + 1 + ?n} \<subseteq> ran m \<union> {idx ..< idx + (1 + ?n)}"
      using r by (intro Un_least) (auto simp: subset_iff)
    with ih have "ran (coco_class_map_loop classes cs (idx + 1) ?m') \<subseteq> ran m \<union> {idx ..< idx + (1 + ?n)}"
      by (rule subset_trans)
    then show ?thesis using True c by simp
  next
    case False
    with Cons.IH[of idx m] c show ?thesis by simp
  qed
qed

lemma coco_init_class_ids:
  assumes "COCODataset_init wd p train = Inr ds"
    and "length (filter (\<lambda>c. snd c \<in> coco_classes p) (cats (co_coco ds))) \<le> 255"
  shows "\<forall>c\<in>ran (co_class_map ds). 0 \<le> c \<and> c \<le> 255"
proof -
  from assms(1) obtain c where ds: "co_class_map ds = coco_generate_class_map p c" "co_coco ds = c"
    by (auto simp: COCODataset_init_def Let_def split: option.splits)
  have "ran (co_class_map ds) \<subseteq> {1 ..< 1 + int (length (filter (\<lambda>c. snd c \<in> coco_classes p) (cats c)))}"
    using coco_class_map_loop_ran[of "coco_classes p" "cats c" 1 Map.empty]
    by (simp add: ds coco_generate_class_map_def)
  with assms(2) ds(2) show ?thesis by (auto simp: subset_iff)
qed

lemma coco_ann_loop_append:
  "coco_ann_loop ma cm h w (xs @ ys) st = coco_ann_loop ma cm h w ys (coco_ann_loop ma cm h w xs st)"
proof (induction xs arbitrary: st)
  case Nil
  then show ?case by (cases st) simp
next
  case (Cons a xs)
  obtain seg loss where st: "st = (seg, loss)" by (cases st)
  show ?case unfolding st using Cons.IH
    by (simp add: Let_def split: option.splits)
qed

lemma coco_ann_loop_seg_mono:
  assumes "length (data seg) = h * w" "length (data loss) = h * w" "k < h * w"
  shows "data seg ! k \<le> data (fst (coco_ann_loop ma cm h w anns (seg, loss))) ! k"
  unfolding coco_ann_loop_seg_word[OF assms]
  by (rule Max_ge) (simp_all add: finite_seg_ids)

text \<open>
  Claim C2, as amended. For an adapter built by \<open>__init__\<close> with at most 255 categories
  in the allow-list, every pixel of the segmentation mask returned by \<open>get_raw_data\<close> is
  the maximum of the mapped class ids of the annotations that are not crowds, have at least
  the minimum area, have a mapped category and cover the pixel (0 when there is none). The
  sample is the same for every order of the annotations, and the value of a pixel after
  any prefix of the annotations is never above its final value: a class id once assigned
  is never replaced by a lower one.
\<close>

theorem coco_seg_mask_max:
  assumes "COCODataset_init wd p train = Inr ds"
    and "length (filter (\<lambda>c. snd c \<in> coco_classes p) (cats (co_coco ds))) \<le> 255"
    and "coco_get_raw_data wd ds key = Inr s"
    and "py_getitem (co_img_ids ds) key = Inr img_id"
    and "coco_get_img wd ds img_id = Inr img"
    and "i < snd (im_size img)" and "j < fst (im_size img)"
  shows "shape (seg_mask s) = [snd (im_size img), fst (im_size img)]
     \<and> uint (data (seg_mask s) ! (i * fst (im_size img) + j)) =
         Max (insert 0 {c. \<exists>a\<in>set (imgToAnns (co_coco ds) img_id).
               iscrowd a = 0 \<and> \<not> area a < min_area (co_p ds)
               \<and> co_class_map ds (category_id a) = Some c \<and> region a i j})
     \<and> (\<forall>anns'. mset anns' = mset (imgToAnns (co_coco ds) img_id) \<longrightarrow>
          coco_get_raw_data wd (with_annotations ds img_id anns') key = Inr s)
     \<and> (\<forall>pre post. imgToAnns (co_coco ds) img_id = pre @ post \<longrightarrow>
          data (fst (coco_ann_loop (min_area (co_p ds)) (co_class_map ds) (snd (im_size img))
                 (fst (im_size img)) pre
                 (seg0 (snd (im_size img)) (fst (im_size img)),
                  tmap (\<lambda>_. 1) (seg0 (snd (im_size img)) (fst (im_size img)))))) ! (i * fst (im_size img) + j)
          \<le> data (seg_mask s) ! (i * fst (im_size img) + j))"
proof -
  let ?h = "snd (im_size img)" and ?w = "fst (im_size img)"
  let ?k = "i * ?w + j"
  let ?ma = "min_area (co_p ds)" and ?cm = "co_class_map ds"
  let ?init = "(seg0 ?h ?w, tmap (\<lambda>_. 1 :: u8) (seg0 ?h ?w))"
  have k: "?k < ?h * ?w" using assms(6,7) by (rule pixel_index)
  have dm: "?k div ?w = i" "?k mod ?w = j" using assms(7) by simp_all
  have sg: "seg_mask s = fst (coco_ann_loop ?ma ?cm ?h ?w (imgToAnns (co_coco ds) img_id) ?init)"
    using assms(3) unfolding coco_get_raw_data_eq[OF assms(4,5)] by auto
  have sh: "shape (seg_mask s) = [?h, ?w]"
    unfolding sg using coco_ann_loop_shape[OF seg0_props(1,2)] by (simp add: seg0_props)
  have v: "uint (data (seg_mask s) ! ?k) =
         Max (insert 0 {c. \<exists>a\<in>set (imgToAnns (co_coco ds) img_id).
               iscrowd a = 0 \<and> \<not> area a < ?ma \<and> ?cm (category_id a) = Some c \<and> region a i j})"
    unfolding sg
      coco_ann_loop_seg_nth[OF seg0_props(1,2) k coco_init_class_ids[OF assms(1,2)]] dm
    using k by (simp add: seg0_props seg_ids_def)
  have p: "\<forall>anns'. mset anns' = mset (imgToAnns (co_coco ds) img_id) \<longrightarrow>
          coco_get_raw_data wd (with_annotations ds img_id anns') key = Inr s"
    using coco_get_raw_data_perm[OF assms(4,5)] assms(3) by simp
  have m: "\<forall>pre post. imgToAnns (co_coco ds) img_id = pre @ post \<longrightarrow>
          data (fst (coco_ann_loop ?ma ?cm ?h ?w pre ?init)) ! ?k \<le> data (seg_mask s) ! ?k"
  proof (intro allI impI)
    fix pre post assume split: "imgToAnns (co_coco ds) img_id = pre @ post"
    obtain seg1 loss1 where st: "coco_ann_loop ?ma ?cm ?h ?w pre ?init = (seg1, loss1)"
      by (cases "coco_ann_loop ?ma ?cm ?h ?w pre ?init")
    have l: "length (data seg1) = ?h * ?w" "length (data loss1) = ?h * ?w"
      using coco_ann_loop_shape[where anns=pre and ma="?ma" and cm="?cm" and seg="seg0 ?h ?w"
          and loss="tmap (\<lambda>_. 1) (seg0 ?h ?w)" and h="?h" and w="?w", OF seg0_props(1,2)] st
      by simp_all
    show "data (fst (coco_ann_loop ?ma ?cm ?h ?w pre ?init)) ! ?k \<le> data (seg_mask s) ! ?k"
      unfolding sg split coco_ann_loop_append st
      using coco_ann_loop_seg_mono[OF l k] by simp
  qed
  from sh v p m show ?thesis by blast
qed

lemma init_w: "COCODataset_init world_w params_w True = Inr ds_w"
  by (simp add: COCODataset_init_def world_w_def params_w_def ds_w_def path_join_def store_w_def)

lemma class_map_w:
  "co_class_map ds_w 11 = Some 2" "co_class_map ds_w 15 = Some 5"
  by (simp_all add: ds_w_def coco_generate_class_map_def params_w_def store_w_def)

lemma key_w: "py_getitem (co_img_ids ds_w) 0 = Inr 7"
  by (simp add: py_getitem_def ds_w_def)

lemma img_w: "coco_get_img world_w ds_w 7 = Inr img_1x2"
  by (simp add: coco_get_img_def ds_w_def store_w_def open_rgb_def image_open_def world_w_def
      path_join_def)

lemma bound_w: "length (filter (\<lambda>c. snd c \<in> coco_classes params_w) (cats (co_coco ds_w))) \<le> 255"
  by (simp add: ds_w_def store_w_def)

lemma anns_w: "imgToAnns (co_coco ds_w) 7 = [ann_cup, ann_spoon, ann_crowd]"
  by (simp add: ds_w_def store_w_def)

theorem coco_seg_mask_max_witness:
  "uint (data (seg_mask (projr (coco_get_raw_data world_w ds_w 0))) ! 0) = 5
   \<and> coco_get_raw_data world_w (with_annotations ds_w 7 [ann_spoon, ann_crowd, ann_cup]) 0
       = coco_get_raw_data world_w ds_w 0"
proof -
  obtain s where s: "coco_get_raw_data world_w ds_w 0 = Inr s"
    using coco_get_raw_data_eq[OF key_w img_w] by blast
  have i: "0 < snd (im_size img_1x2)" and j: "0 < fst (im_size img_1x2)"
    by (simp_all add: img_1x2_def)
  note t = coco_seg_mask_max[OF init_w bound_w s key_w img_w i j]
  have "{c. \<exists>a\<in>set (imgToAnns (co_coco ds_w) 7).
               iscrowd a = 0 \<and> \<not> area a < min_area (co_p ds_w)
               \<and> co_class_map ds_w (category_id a) = Some c \<and> region a 0 0} = {2, 5}"
    unfolding anns_w using class_map_w
    by (auto simp: ann_cup_def ann_spoon_def ann_crowd_def ds_w_def params_w_def)
  with t have v: "uint (data (seg_mask s) ! 0) = 5" by simp
  have "mset [ann_spoon, ann_crowd, ann_cup] = mset (imgToAnns (co_coco ds_w) 7)"
    unfolding anns_w by simp
  with t have "coco_get_raw_data world_w (with_annotations ds_w 7 [ann_spoon, ann_crowd, ann_cup]) 0 = Inr s"
    by blast
  with v s show ?thesis by simp
qed

theorem coco_loss_mask_exclusions_witness:
  "data (loss_mask (projr (coco_get_raw_data world_w ds_w 0))) ! 1 = 0
   \<and> coco_get_raw_data world_w (with_annotations ds_w 7 [ann_crowd, ann_spoon, ann_cup]) 0
       = coco_get_raw_data world_w ds_w 0"
proof -
  obtain s where s: "coco_get_raw_data world_w ds_w 0 = Inr s"
    using coco_get_raw_data_eq[OF key_w img_w] by blast
  have i: "0 < snd (im_size img_1x2)" and j: "1 < fst (im_size img_1x2)"
    by (simp_all add: img_1x2_def)
  note t = coco_loss_mask_exclusions[OF s key_w img_w i j]
  have "\<exists>a\<in>set (imgToAnns (co_coco ds_w) 7).
           (iscrowd a \<noteq> 0 \<or> area a < min_area (co_p ds_w)) \<and> region a 0 1"
    unfolding anns_w by (simp add: ann_crowd_def)
  with t have v: "data (loss_mask s) ! 1 = 0" by (simp add: img_1x2_def)
  have "mset [ann_crowd, ann_spoon, ann_cup] = mset (imgToAnns (co_coco ds_w) 7)"
    unfolding anns_w by simp
  with t have "coco_get_raw_data world_w (with_annotations ds_w 7 [ann_crowd, ann_spoon, ann_cup]) 0 = Inr s"
    by blast
  with v s show ?thesis by simp
qed

lemma coco_class_map_loop_other:
  "key \<notin> fst ` set cs \<Longrightarrow> coco_class_map_loop classes cs idx m key = m key"
  by (induction cs arbitrary: idx m) (auto split: prod.splits)

lemma coco_class_map_loop_dense:
  assumes "\<forall>c\<in>set cs. snd c \<in> classes" "distinct (map fst cs)" "n < length cs"
  shows "coco_class_map_loop classes cs idx m (fst (cs ! n)) = Some (idx + int n)"
  using assms
proof (induction cs arbitrary: idx m n)
  case Nil
  then show ?case by simp
next
  case (Cons c cs)
  obtain cat_id name where c: "c = (cat_id, name)" by (cases c)
  show ?case
  proof (cases n)
    case 0
    have "cat_id \<notin> fst ` set cs" using Cons.prems(2) c by auto
    then show ?thesis using 0 c Cons.prems(1)
      by (simp add: coco_class_map_loop_other)
  next
    case (Suc n')
    have "coco_class_map_loop classes cs (idx + 1) (m(cat_id \<mapsto> idx)) (fst (cs ! n')) = Some (idx + 1 + int n')"
      using Cons.prems Suc by (intro Cons.IH) auto
    then show ?thesis using Suc c Cons.prems(1) by simp
  qed
qed

lemma init256: "COCODataset_init world256 params256 True = Inr ds256"
  by (simp add: COCODataset_init_def world256_def params256_def ds256_def path_join_def)
    (simp add: store256_def)

lemma class_map256: "co_class_map ds256 256 = Some 256"
proof -
  have a: "\<forall>c\<in>set cats256. snd c \<in> coco_classes params256"
    by (auto simp: cats256_def params256_def)
  have "map fst cats256 = map int [1..<257]" by (simp add: cats256_def comp_def)
  then have d: "distinct (map fst cats256)" by (simp add: distinct_map)
  have n: "255 < length cats256" by (simp add: cats256_def)
  have "cats256 ! 255 = (256, replicate 256 CHR ''c'')"
    unfolding cats256_def by (subst nth_map) simp_all
  with coco_class_map_loop_dense[OF a d n, of 1 Map.empty] show ?thesis
    by (simp add: ds256_def coco_generate_class_map_def store256_def)
qed

lemma key256: "py_getitem (co_img_ids ds256) 0 = Inr 7"
  by (simp add: py_getitem_def ds256_def)

lemma img256: "coco_get_img world256 ds256 7 = Inr img_1x2"
  by (simp add: coco_get_img_def ds256_def store256_def open_rgb_def image_open_def world256_def
      path_join_def)

text \<open>
  Claim C2 as stated fails for a store with 256 categories, all in the allow-list: the
  last category is mapped to the class id 256, the mask is a byte tensor, and the product
  \<open>ann_mask * 256\<close> is 0 in bytes. The pixel covered by an annotation of that category
  stays 0, where the claim gives 256.
\<close>

theorem coco_seg_mask_256_counterexample:
  "COCODataset_init world256 params256 True = Inr ds256
   \<and> imgToAnns (co_coco ds256) 7 = [ann256]
   \<and> iscrowd ann256 = 0 \<and> \<not> area ann256 < min_area (co_p ds256) \<and> region ann256 0 0
   \<and> co_class_map ds256 (category_id ann256) = Some 256
   \<and> uint (data (seg_mask (projr (coco_get_raw_data world256 ds256 0))) ! 0) = 0"
proof -
  have w: "(word_of_int 256 :: u8) = 0" by simp
  have "data (seg_mask (projr (coco_get_raw_data world256 ds256 0))) ! 0 = 0"
    unfolding coco_get_raw_data_eq[OF key256 img256]
    using class_map256
    by (simp add: ds256_def store256_def params256_def ann256_def img_1x2_def seg0_def
        tmap_def tmap2_def annToMask_def Let_def w)
  then show ?thesis using init256 class_map256
    by (simp add: ds256_def store256_def params256_def ann256_def)
qed

section \<open>Facts about the packed-colour adapter\<close>

lemma decode_word:
  fixes c0 c1 :: u8
  shows "sint ((ucast (c0 div 10) :: i64) * 256 + ucast c1) = (uint c0 div 10) * 256 + uint c1"
proof -
  have b0: "uint c0 < 256" "0 \<le> uint c0" using uint_bounded[of c0] by simp_all
  have b1: "uint c1 < 256" "0 \<le> uint c1" using uint_bounded[of c1] by simp_all
  have d: "uint (c0 div 10) = uint c0 div 10" by (simp add: uint_div)
  have u0: "uint (ucast (c0 div 10) :: i64) = uint c0 div 10"
    using d by (simp add: uint_up_ucast is_up)
  have u1: "uint (ucast c1 :: i64) = uint c1"
    by (simp add: uint_up_ucast is_up)
  have dv1: "0 \<le> uint c0 div 10"
    by (simp add: pos_imp_zdiv_nonneg_iff)
  have dv2: "uint c0 div 10 \<le> 25"
    using b0(1) by arith
  note dv = dv1 dv2
  have small: "(uint c0 div 10) * 256 + uint c1 < 2 ^ 63" "0 \<le> (uint c0 div 10) * 256 + uint c1"
    using dv b1 by simp_all
  have "uint ((ucast (c0 div 10) :: i64) * 256 + ucast c1) = ((uint c0 div 10) * 256 + uint c1) mod 2 ^ 64"
    by (simp add: uint_word_ariths u0 u1 mod_simps)
  also have "\<dots> = (uint c0 div 10) * 256 + uint c1" using small by simp
  finally have u: "uint ((ucast (c0 div 10) :: i64) * 256 + ucast c1) = (uint c0 div 10) * 256 + uint c1" .
  have "sint ((ucast (c0 div 10) :: i64) * 256 + ucast c1)
      = signed_take_bit (LENGTH(64) - Suc 0) (uint ((ucast (c0 div 10) :: i64) * 256 + ucast c1))"
    by (rule sint_uint)
  also have "\<dots> = (uint c0 div 10) * 256 + uint c1"
    unfolding u using small by (intro signed_take_bit_int_eq_self) simp_all
  finally show ?thesis .
qed

lemma fg_get_raw_data_classes: "fg_get_raw_data wd (with_classes ds S) key = fg_get_raw_data wd ds key"
  by (simp add: fg_get_raw_data_def with_classes_def cong: sum.case_cong)

text \<open>
  Claim C5. In the packed-colour adapter, the segmentation mask returned by
  \<open>get_raw_data\<close> has the height and width of the annotation image, and its value at
  every pixel is (channel 0 // 10) * 256 + channel 1 of that pixel (so channel 0 = 20 and
  channel 1 = 5 give 517). The result does not depend on the configured class allow-list:
  replacing it by any set \<open>S\<close> gives the same sample.
\<close>

theorem fg_packed_decode:
  assumes "fg_get_raw_data wd ds key = Inr s"
    and "py_getitem (fg_seg_path_list ds) key = Inr seg_path"
    and "image_files wd seg_path = Some seg_img"
    and "i < snd (im_size seg_img)" and "j < fst (im_size seg_img)"
  shows "shape (seg_mask s) = [snd (im_size seg_img), fst (im_size seg_img)]
     \<and> sint (data (seg_mask s) ! (i * fst (im_size seg_img) + j))
         = (uint (px seg_img i j 0) div 10) * 256 + uint (px seg_img i j 1)
     \<and> fg_get_raw_data wd (with_classes ds S) key = Inr s"
proof -
  let ?h = "snd (im_size seg_img)" and ?w = "fst (im_size seg_img)" and ?b = "im_bands seg_img"
  let ?k = "i * ?w + j"
  have k: "?k < ?h * ?w" using assms(4,5) by (rule pixel_index)
  have io: "image_open wd seg_path = Inr seg_img"
    using assms(3) by (simp add: image_open_def)
  from assms(1,2) io obtain ch0 ch1 where
    c0: "np_channel seg_img 0 = Inr ch0" and c1: "np_channel seg_img 1 = Inr ch1"
    and sg: "seg_mask s = tmap2 (\<lambda>a b. a + ucast b)
               (tmap (\<lambda>v. v * 256) (tmap (ucast :: u8 \<Rightarrow> i64) (tmap (\<lambda>v. v div 10) ch0))) ch1"
    by (auto simp: fg_get_raw_data_def Let_def split: sum.splits)
  have d0: "ch0 = \<lparr>shape = [?h, ?w], data = map (\<lambda>q. im_bytes seg_img ! (q * ?b + 0)) [0..<?h * ?w]\<rparr>"
    using c0 by (simp add: np_channel_def Let_def split: if_splits)
  have d1: "ch1 = \<lparr>shape = [?h, ?w], data = map (\<lambda>q. im_bytes seg_img ! (q * ?b + 1)) [0..<?h * ?w]\<rparr>"
    using c1 by (simp add: np_channel_def Let_def split: if_splits)
  have sh: "shape (seg_mask s) = [?h, ?w]"
    by (simp add: sg d0 tmap_def tmap2_def)
  have "data (seg_mask s) ! ?k = (ucast (px seg_img i j 0 div 10) :: i64) * 256 + ucast (px seg_img i j 1)"
    using k by (simp add: sg d0 d1 tmap_def tmap2_def px_def)
  then have v: "sint (data (seg_mask s) ! ?k)
         = (uint (px seg_img i j 0) div 10) * 256 + uint (px seg_img i j 1)"
    by (simp only: decode_word)
  from sh v assms(1) show ?thesis by (simp add: fg_get_raw_data_classes)
qed

lemma fg_init_w: "FineGrainedADE20KDataset_init fg_world fg_params_w True = Inr fg_ds"
  by (simp add: FineGrainedADE20KDataset_init_def fg_world_def fg_params_w_def fg_ds_def
      path_join_def get_seg_path_def Let_def)

lemma fg_get_w:
  "fg_get_raw_data fg_world fg_ds 0 =
     Inr \<lparr>image = img_jpg, seg_mask = \<lparr>shape = [1, 1], data = [517]\<rparr>,
          loss_mask = \<lparr>shape = [1, 1], data = [1]\<rparr>\<rparr>"
  by (simp add: fg_get_raw_data_def fg_ds_def fg_world_def py_getitem_def open_rgb_def
      image_open_def np_channel_def seg_png_def tmap_def tmap2_def Let_def)

theorem fg_packed_decode_witness:
  "fg_get_raw_data fg_world fg_ds 0 =
     Inr \<lparr>image = img_jpg, seg_mask = \<lparr>shape = [1, 1], data = [517]\<rparr>,
          loss_mask = \<lparr>shape = [1, 1], data = [1]\<rparr>\<rparr>
   \<and> px seg_png 0 0 0 = 20 \<and> px seg_png 0 0 1 = 5
   \<and> (uint (px seg_png 0 0 0) div 10) * 256 + uint (px seg_png 0 0 1) = 517
   \<and> fg_get_raw_data fg_world (with_classes fg_ds {}) 0 = fg_get_raw_data fg_world fg_ds 0"
proof -
  have k: "py_getitem (fg_seg_path_list fg_ds) 0
      = Inr ''/data/ADE20K_2016_07_26/../ADE20K_2016_07_26/images/training/a/ADE_train_00000001_seg.png''"
    by (simp add: py_getitem_def fg_ds_def)
  have f: "image_files fg_world
      ''/data/ADE20K_2016_07_26/../ADE20K_2016_07_26/images/training/a/ADE_train_00000001_seg.png''
      = Some seg_png"
    by (simp add: fg_world_def)
  have i: "0 < snd (im_size seg_png)" and j: "0 < fst (im_size seg_png)"
    by (simp_all add: seg_png_def)
  have p: "px seg_png 0 0 0 = 20" "px seg_png 0 0 1 = 5"
    by (simp_all add: px_def seg_png_def)
  note t = fg_packed_decode[OF fg_get_w k f i j, of "{}"]
  from t have "sint (data (seg_mask \<lparr>image = img_jpg, seg_mask = \<lparr>shape = [1, 1], data = [517 :: i64]\<rparr>,
          loss_mask = \<lparr>shape = [1, 1], data = [1]\<rparr>\<rparr>) ! (0 * fst (im_size seg_png) + 0))
      = (uint (px seg_png 0 0 0) div 10) * 256 + uint (px seg_png 0 0 1)"
    by (rule conjunct1[OF conjunct2])
  then have v: "(uint (px seg_png 0 0 0) div 10) * 256 + uint (px seg_png 0 0 1) = 517"
    by simp
  from t have c: "fg_get_raw_data fg_world (with_classes fg_ds {}) 0 = fg_get_raw_data fg_world fg_ds 0"
    unfolding fg_get_w by (rule conjunct2[OF conjunct2])
  from fg_get_w p v c show ?thesis by (intro conjI)
qed

section \<open>Facts about the flat-file adapter and about keys\<close>

lemma ade_map_loop_lookup:
  "ade_map_loop classes ns i md ci k =
     (if i < k \<and> k \<le> i + int (length ns) \<and> ns ! nat (k - i - 1) \<in> classes
      then Some (ci + int (length (filter (\<lambda>n. n \<in> classes) (take (nat (k - i - 1)) ns))))
      else md k)"
proof (induction ns arbitrary: i md ci k)
  case Nil
  then show ?case by auto
next
  case (Cons n ns)
  show ?case
  proof (cases "k = i + 1")
    case True
    then show ?thesis by (simp add: Cons.IH)
  next
    case False
    show ?thesis
    proof (cases "i < k \<and> k \<le> i + 1 + int (length ns)")
      case True
      with False have k: "i + 1 < k" by simp
      then obtain m where m: "nat (k - i - 1) = Suc m" "nat (k - (i + 1) - 1) = m"
        by (metis Suc_nat_eq_nat_zadd1 add.commute add_diff_cancel_left' diff_add_cancel
            diff_ge_0_iff_ge less_imp_le zle_diff1_eq diff_diff_add)
      show ?thesis using k True m False
        by (simp add: Cons.IH)
    next
      case False
      then show ?thesis using \<open>k \<noteq> i + 1\<close> by (auto simp add: Cons.IH)
    qed
  qed
qed

lemma map_func_dense:
  "map_func (ade_map_loop classes names 0 Map.empty 1) v = dense_id classes names v"
proof (cases "1 \<le> v \<and> v \<le> int (length names) \<and> names ! nat (v - 1) \<in> classes")
  case True
  then have l: "nat (v - 1) < length names" by auto
  have "nat v = Suc (nat (v - 1))" using True by auto
  then have "take (nat v) names = take (nat (v - 1)) names @ [names ! nat (v - 1)]"
    using l by (simp add: take_Suc_conv_app_nth)
  then show ?thesis using True
    by (simp add: map_func_def ade_map_loop_lookup dense_id_def)
next
  case False
  then show ?thesis
    by (auto simp add: map_func_def ade_map_loop_lookup dense_id_def)
qed

lemma dense_id_bounds: "0 \<le> dense_id classes names v" "0 \<le> v \<Longrightarrow> dense_id classes names v \<le> v"
proof -
  show "0 \<le> dense_id classes names v" by (simp add: dense_id_def)
  assume "0 \<le> v"
  have "length (filter (\<lambda>n. n \<in> classes) (take (nat v) names)) \<le> nat v"
    by (rule order_trans[OF length_filter_le]) simp
  then have "int (length (filter (\<lambda>n. n \<in> classes) (take (nat v) names))) \<le> int (nat v)"
    by (simp only: of_nat_le_iff)
  then show "dense_id classes names v \<le> v" using \<open>0 \<le> v\<close> by (simp add: dense_id_def)
qed

lemma ade_init_class_map:
  assumes "ADE20KDataset_init wd p train = Inr ds"
    and "text_files wd (path_join (ade_root_dir p) ''objectInfo150.txt'') = Some class_desc"
  shows "ade_class_map ds = dense_id (ade_classes p) (class_name_list class_desc)"
proof -
  from assms have "ade_class_map ds
      = map_func (ade_map_loop (ade_classes p) (class_name_list class_desc) 0 Map.empty 1)"
    by (auto simp: ADE20KDataset_init_def ade_generate_class_map_def readlines_def Let_def
        split: sum.splits option.splits prod.splits)
  then show ?thesis by (simp add: map_func_dense fun_eq_iff)
qed

text \<open>
  The class map of the flat-file adapter in terms of \<open>class_name_list\<close>, the names as
  \<open>_generate_class_map\<close> parses them: a grid value \<open>v\<close> goes to the dense id of the
  \<open>v\<close>-th parsed name when that name is in the configured class set and to 0 otherwise,
  and \<open>get_raw_data\<close> applies the map to every element of the annotation image.
\<close>

lemma ade_class_map_parsed_names:
  assumes "ADE20KDataset_init wd p train = Inr ds"
    and "text_files wd (path_join (ade_root_dir p) ''objectInfo150.txt'') = Some class_desc"
    and "ade_get_raw_data wd ds key = Inr s"
    and "py_getitem (ade_seg_path_list ds) key = Inr seg_path"
    and "image_files wd seg_path = Some seg_img"
    and "q < length (im_bytes seg_img)"
  shows "ade_class_map ds v = dense_id (ade_classes p) (class_name_list class_desc) v
     \<and> length (data (seg_mask s)) = length (im_bytes seg_img)
     \<and> uint (data (seg_mask s) ! q)
         = dense_id (ade_classes p) (class_name_list class_desc) (uint (im_bytes seg_img ! q))
     \<and> (class_name_list class_desc ! nat (uint (im_bytes seg_img ! q) - 1) \<notin> ade_classes p
          \<longrightarrow> data (seg_mask s) ! q = 0)"
proof -
  let ?f = "dense_id (ade_classes p) (class_name_list class_desc)"
  let ?g = "uint (im_bytes seg_img ! q)"
  have cm: "ade_class_map ds = ?f" using assms(1,2) by (rule ade_init_class_map)
  have io: "image_open wd seg_path = Inr seg_img"
    using assms(5) by (simp add: image_open_def)
  from assms(3,4) io have sg: "seg_mask s = tmap word_of_int (tmap (\<lambda>v. ?f (uint v)) (np_array seg_img))"
    by (auto simp: ade_get_raw_data_def np_vectorize_def cm Let_def split: sum.splits if_splits)
  have len: "length (data (seg_mask s)) = length (im_bytes seg_img)"
    by (simp add: sg tmap_def np_array_def Let_def)
  have el: "data (seg_mask s) ! q = word_of_int (?f ?g)"
    using assms(6) by (simp add: sg tmap_def np_array_def Let_def)
  have g: "0 \<le> ?g" "?g < 256" using uint_bounded[of "im_bytes seg_img ! q"] by simp_all
  have b: "0 \<le> ?f ?g" "?f ?g \<le> 255"
    using dense_id_bounds[where classes="ade_classes p" and names="class_name_list class_desc" and v="?g"] g
    by simp_all
  have v: "uint (data (seg_mask s) ! q) = ?f ?g"
    unfolding el using b by (rule uint_byte_id)
  have z: "class_name_list class_desc ! nat (?g - 1) \<notin> ade_classes p \<longrightarrow> data (seg_mask s) ! q = 0"
    unfolding el by (simp add: dense_id_def)
  from cm len v z show ?thesis by simp
qed

lemma py_getitem_out_of_range:
  "key < - int (length xs) \<or> int (length xs) \<le> key \<Longrightarrow> py_getitem xs key = Inl IndexError"
  by (auto simp: py_getitem_def Let_def)

lemma py_getitem_negative:
  "- int (length xs) \<le> key \<Longrightarrow> key < 0 \<Longrightarrow> py_getitem xs key = py_getitem xs (key + int (length xs))"
  by (auto simp: py_getitem_def Let_def)

lemma ade_scan_lengths:
  "ade_scan train a b ls (ips, sps, scs) = Inr (ips', sps', scs') \<Longrightarrow> length sps = length ips
     \<Longrightarrow> length sps' = length ips'"
proof (induction ls arbitrary: ips sps scs)
  case Nil
  then show ?case by simp
next
  case (Cons l ls)
  from Cons.prems(1) obtain img_name scene_name where
    sp: "py_split CHR '' '' (butlast l) = [img_name, scene_name]"
    by (auto split: list.splits)
  show ?case
  proof (cases "(train \<and> py_in ''val'' img_name) \<or> (\<not> train \<and> py_in ''train'' img_name)")
    case True
    then have "ade_scan train a b ls (ips, sps, scs) = Inr (ips', sps', scs')"
      using Cons.prems(1) sp by (auto split: if_splits)
    then show ?thesis using Cons.prems(2) by (rule Cons.IH)
  next
    case False
    then have "ade_scan train a b ls (ips @ [path_join a (img_name @ ''.jpg'')],
        sps @ [path_join b (img_name @ ''.png'')], scs @ [scene_name]) = Inr (ips', sps', scs')"
      using Cons.prems(1) sp by (auto split: if_splits)
    from Cons.IH[OF this] Cons.prems(2) show ?thesis by simp
  qed
qed

lemma fg_scan_lengths:
  "fg_scan base mark fs folders i (ips, sps) = Inr (ips', sps') \<Longrightarrow> length sps = length ips
     \<Longrightarrow> length sps' = length ips'"
proof (induction fs arbitrary: i ips sps)
  case Nil
  then show ?case by simp
next
  case (Cons f fs)
  show ?case
  proof (cases "py_in mark f")
    case True
    then have "fg_scan base mark fs folders (i + 1)
        (ips @ [path_join (path_join base (folders ! i)) f],
         sps @ [get_seg_path (path_join (path_join base (folders ! i)) f)]) = Inr (ips', sps')"
      using Cons.prems(1) by (auto simp: Let_def split: if_splits)
    from Cons.IH[OF this] Cons.prems(2) show ?thesis by simp
  next
    case False
    then have "fg_scan base mark fs folders (i + 1) (ips, sps) = Inr (ips', sps')"
      using Cons.prems(1) by simp
    then show ?thesis using Cons.prems(2) by (rule Cons.IH)
  qed
qed

lemma coco_init_len:
  "COCODataset_init wd p train = Inr ds \<Longrightarrow> length (co_img_ids ds) = coco_len ds"
  by (auto simp: COCODataset_init_def coco_len_def Let_def split: option.splits)

lemma ade_init_len:
  assumes "ADE20KDataset_init wd p train = Inr ds"
  shows "length (ade_img_path_list ds) = ade_len ds" "length (ade_seg_path_list ds) = ade_len ds"
proof -
  from assms obtain ls a b ips sps scs where
    sc: "ade_scan train a b ls ([], [], []) = Inr (ips, sps, scs)"
    and ds: "ade_img_path_list ds = ips" "ade_seg_path_list ds = sps" "ade_dataset_size ds = length ips"
    by (auto simp: ADE20KDataset_init_def Let_def split: sum.splits prod.splits)
  from ade_scan_lengths[OF sc] have "length sps = length ips" by simp
  with ds show "length (ade_img_path_list ds) = ade_len ds" "length (ade_seg_path_list ds) = ade_len ds"
    by (simp_all add: ade_len_def)
qed

lemma fg_init_len:
  assumes "FineGrainedADE20KDataset_init wd p train = Inr ds"
  shows "length (fg_img_path_list ds) = fg_len ds" "length (fg_seg_path_list ds) = fg_len ds"
proof -
  from assms obtain base mark fs folders ips sps where
    sc: "fg_scan base mark fs folders 0 ([], []) = Inr (ips, sps)"
    and ds: "fg_img_path_list ds = ips" "fg_seg_path_list ds = sps" "fg_dataset_size ds = length ips"
    by (auto simp: FineGrainedADE20KDataset_init_def Let_def split: sum.splits prod.splits option.splits)
  from fg_scan_lengths[OF sc] have "length sps = length ips" by simp
  with ds show "length (fg_img_path_list ds) = fg_len ds" "length (fg_seg_path_list ds) = fg_len ds"
    by (simp_all add: fg_len_def)
qed

text \<open>
  Claim C3, as amended. For each of the three adapters, as built by its \<open>__init__\<close>,
  \<open>get_raw_data(key)\<close> raises IndexError for every key below \<open>-length\<close> or at least
  \<open>length\<close>; a key in \<open>[-length, 0)\<close> is Python's index from the end and gives what the
  key \<open>key + length\<close> gives.
\<close>

theorem get_raw_data_index_error:
  assumes "COCODataset_init wdc pc trc = Inr dc"
    and "ADE20KDataset_init wda pa tra = Inr da"
    and "FineGrainedADE20KDataset_init wdf pf trf = Inr df"
  shows "(key < - int (coco_len dc) \<or> int (coco_len dc) \<le> key
            \<longrightarrow> coco_get_raw_data wdc dc key = Inl IndexError)
     \<and> (key < - int (ade_len da) \<or> int (ade_len da) \<le> key
            \<longrightarrow> ade_get_raw_data wda da key = Inl IndexError)
     \<and> (key < - int (fg_len df) \<or> int (fg_len df) \<le> key
            \<longrightarrow> fg_get_raw_data wdf df key = Inl IndexError)
     \<and> (- int (coco_len dc) \<le> key \<and> key < 0
            \<longrightarrow> coco_get_raw_data wdc dc key = coco_get_raw_data wdc dc (key + int (coco_len dc)))
     \<and> (- int (ade_len da) \<le> key \<and> key < 0
            \<longrightarrow> ade_get_raw_data wda da key = ade_get_raw_data wda da (key + int (ade_len da)))
     \<and> (- int (fg_len df) \<le> key \<and> key < 0
            \<longrightarrow> fg_get_raw_data wdf df key = fg_get_raw_data wdf df (key + int (fg_len df)))"
proof -
  note lc = coco_init_len[OF assms(1)]
  note la = ade_init_len[OF assms(2)]
  note lf = fg_init_len[OF assms(3)]
  have c1: "key < - int (coco_len dc) \<or> int (coco_len dc) \<le> key
            \<longrightarrow> coco_get_raw_data wdc dc key = Inl IndexError"
    using py_getitem_out_of_range[of key "co_img_ids dc"] lc
    by (auto simp: coco_get_raw_data_def)
  have a1: "key < - int (ade_len da) \<or> int (ade_len da) \<le> key
            \<longrightarrow> ade_get_raw_data wda da key = Inl IndexError"
    using py_getitem_out_of_range[of key "ade_img_path_list da"] la
    by (auto simp: ade_get_raw_data_def)
  have f1: "key < - int (fg_len df) \<or> int (fg_len df) \<le> key
            \<longrightarrow> fg_get_raw_data wdf df key = Inl IndexError"
    using py_getitem_out_of_range[of key "fg_img_path_list df"] lf
    by (auto simp: fg_get_raw_data_def)
  have c2: "- int (coco_len dc) \<le> key \<and> key < 0
            \<longrightarrow> coco_get_raw_data wdc dc key = coco_get_raw_data wdc dc (key + int (coco_len dc))"
    using py_getitem_negative[of "co_img_ids dc" key] lc
    by (auto simp: coco_get_raw_data_def)
  have a2: "- int (ade_len da) \<le> key \<and> key < 0
            \<longrightarrow> ade_get_raw_data wda da key = ade_get_raw_data wda da (key + int (ade_len da))"
  proof
    assume h: "- int (ade_len da) \<le> key \<and> key < 0"
    have e1: "py_getitem (ade_img_path_list da) key
        = py_getitem (ade_img_path_list da) (key + int (ade_len da))"
      using py_getitem_negative[of "ade_img_path_list da" key] h la by simp
    have e2: "py_getitem (ade_seg_path_list da) key
        = py_getitem (ade_seg_path_list da) (key + int (ade_len da))"
      using py_getitem_negative[of "ade_seg_path_list da" key] h la by simp
    show "ade_get_raw_data wda da key = ade_get_raw_data wda da (key + int (ade_len da))"
      unfolding ade_get_raw_data_def e1 e2 by (rule refl)
  qed
  have f2: "- int (fg_len df) \<le> key \<and> key < 0
            \<longrightarrow> fg_get_raw_data wdf df key = fg_get_raw_data wdf df (key + int (fg_len df))"
  proof
    assume h: "- int (fg_len df) \<le> key \<and> key < 0"
    have e1: "py_getitem (fg_img_path_list df) key
        = py_getitem (fg_img_path_list df) (key + int (fg_len df))"
      using py_getitem_negative[of "fg_img_path_list df" key] h lf by simp
    have e2: "py_getitem (fg_seg_path_list df) key
        = py_getitem (fg_seg_path_list df) (key + int (fg_len df))"
      using py_getitem_negative[of "fg_seg_path_list df" key] h lf by simp
    show "fg_get_raw_data wdf df key = fg_get_raw_data wdf df (key + int (fg_len df))"
      unfolding fg_get_raw_data_def e1 e2 by (rule refl)
  qed
  from c1 a1 f1 c2 a2 f2 show ?thesis by blast
qed

lemma names_w: "class_name_list object_info = [''wall'', ''building, edifice'', ''sky'', ''floor, flooring'']"
  by (simp add: class_name_list_def object_info_def desc_line_def py_strip_def)

lemma desc_w:
  "text_files ade_world (path_join (ade_root_dir ade_params_w) ''objectInfo150.txt'') = Some object_info"
  by (simp add: ade_world_def ade_params_w_def path_join_def)

lemma ade_init_w: "ADE20KDataset_init ade_world ade_params_w True = Inr ade_ds"
proof -
  have sc: "ade_scan True ''/data/ADEChallengeData2016/images/training''
      ''/data/ADEChallengeData2016/annotations/training''
      [''ADE_train_00000001 bedroom'' @ [CHR 0x0A], ''ADE_val_00000001 kitchen'' @ [CHR 0x0A]] ([], [], [])
    = Inr ([''/data/ADEChallengeData2016/images/training/ADE_train_00000001.jpg''],
           [''/data/ADEChallengeData2016/annotations/training/ADE_train_00000001.png''],
           [''bedroom''])"
    by (simp add: path_join_def)
  show ?thesis
    by (simp add: ADE20KDataset_init_def ade_generate_class_map_def readlines_def Let_def
        ade_world_def ade_params_w_def path_join_def sc ade_ds_def map_func_dense fun_eq_iff)
qed

lemma ade_key_w: "py_getitem (ade_seg_path_list ade_ds) 0
    = Inr ''/data/ADEChallengeData2016/annotations/training/ADE_train_00000001.png''"
  by (simp add: py_getitem_def ade_ds_def)

lemma ade_file_w: "image_files ade_world
    ''/data/ADEChallengeData2016/annotations/training/ADE_train_00000001.png'' = Some seg_gray"
  by (simp add: ade_world_def)

lemma ade_get_w: "\<exists>s. ade_get_raw_data ade_world ade_ds 0 = Inr s"
  by (simp add: ade_get_raw_data_def ade_ds_def py_getitem_def open_rgb_def image_open_def
      ade_world_def np_vectorize_def np_array_def seg_gray_def Let_def)

lemma ade_class_map_parsed_names_example:
  "class_name_list object_info ! nat (uint (im_bytes seg_gray ! 1) - 1) = ''building, edifice''
   \<and> ''building, edifice'' \<notin> ade_classes ade_params_w
   \<and> data (seg_mask (projr (ade_get_raw_data ade_world ade_ds 0))) ! 1 = 0
   \<and> uint (data (seg_mask (projr (ade_get_raw_data ade_world ade_ds 0))) ! 0) = 2"
proof -
  obtain s where s: "ade_get_raw_data ade_world ade_ds 0 = Inr s" using ade_get_w by blast
  have q0: "0 < length (im_bytes seg_gray)" and q1: "1 < length (im_bytes seg_gray)"
    by (simp_all add: seg_gray_def)
  have n: "class_name_list object_info ! nat (uint (im_bytes seg_gray ! 1) - 1) = ''building, edifice''"
    by (simp add: names_w seg_gray_def)
  have a: "''building, edifice'' \<notin> ade_classes ade_params_w"
    by (simp add: ade_params_w_def)
  from ade_class_map_parsed_names[OF ade_init_w desc_w s ade_key_w ade_file_w q1] n a
  have z: "data (seg_mask s) ! 1 = 0" by simp
  have "dense_id (ade_classes ade_params_w) (class_name_list object_info) (uint (im_bytes seg_gray ! 0)) = 2"
    by (simp add: names_w seg_gray_def dense_id_def ade_params_w_def)
  with ade_class_map_parsed_names[OF ade_init_w desc_w s ade_key_w ade_file_w q0]
  have v: "uint (data (seg_mask s) ! 0) = 2" by simp
  from n a z v s show ?thesis by simp
qed

theorem get_raw_data_index_error_witness:
  "coco_get_raw_data world_w ds_w 1 = Inl IndexError
   \<and> ade_get_raw_data ade_world ade_ds 1 = Inl IndexError
   \<and> fg_get_raw_data fg_world fg_ds (-2) = Inl IndexError
   \<and> coco_get_raw_data world_w ds_w (-1) = coco_get_raw_data world_w ds_w 0
   \<and> ade_get_raw_data ade_world ade_ds (-1) = ade_get_raw_data ade_world ade_ds 0
   \<and> fg_get_raw_data fg_world fg_ds (-1) = fg_get_raw_data fg_world fg_ds 0"
proof -
  have l: "coco_len ds_w = 1" "ade_len ade_ds = 1" "fg_len fg_ds = 1"
    by (simp_all add: coco_len_def ds_w_def store_w_def ade_len_def ade_ds_def fg_len_def fg_ds_def)
  from get_raw_data_index_error[OF init_w ade_init_w fg_init_w, of 1]
  have a: "coco_get_raw_data world_w ds_w 1 = Inl IndexError"
    "ade_get_raw_data ade_world ade_ds 1 = Inl IndexError"
    by (simp_all add: l)
  from get_raw_data_index_error[OF init_w ade_init_w fg_init_w, of "-2"]
  have b: "fg_get_raw_data fg_world fg_ds (-2) = Inl IndexError"
    by (simp add: l)
  from get_raw_data_index_error[OF init_w ade_init_w fg_init_w, of "-1"]
  have c: "coco_get_raw_data world_w ds_w (-1) = coco_get_raw_data world_w ds_w 0"
    "ade_get_raw_data ade_world ade_ds (-1) = ade_get_raw_data ade_world ade_ds 0"
    "fg_get_raw_data fg_world fg_ds (-1) = fg_get_raw_data fg_world fg_ds 0"
    by (simp_all add: l)
  from a b c show ?thesis by simp
qed

text \<open>
  Claim C3 as stated fails at the key -1: it is outside \<open>[0, length)\<close>, and the adapter
  of length 1 returns its only sample.
\<close>

theorem get_raw_data_negative_key_counterexample:
  "FineGrainedADE20KDataset_init fg_world fg_params_w True = Inr fg_ds
   \<and> fg_len fg_ds = 1
   \<and> fg_get_raw_data fg_world fg_ds (-1) =
       Inr \<lparr>image = img_jpg, seg_mask = \<lparr>shape = [1, 1], data = [517]\<rparr>,
            loss_mask = \<lparr>shape = [1, 1], data = [1]\<rparr>\<rparr>"
proof -
  have "fg_get_raw_data fg_world fg_ds (-1) =
       Inr \<lparr>image = img_jpg, seg_mask = \<lparr>shape = [1, 1], data = [517]\<rparr>,
            loss_mask = \<lparr>shape = [1, 1], data = [1]\<rparr>\<rparr>"
    by (simp add: fg_get_raw_data_def fg_ds_def fg_world_def py_getitem_def open_rgb_def
        image_open_def np_channel_def seg_png_def tmap_def tmap2_def Let_def)
  then show ?thesis using fg_init_w by (simp add: fg_len_def fg_ds_def)
qed

text \<open>
  Where every line after the header ends with an end of line, the code's parse of the
  manifest gives the names of its rows.
\<close>

lemma class_name_list_eol:
  assumes "\<forall>line\<in>set (tl class_desc). line \<noteq> [] \<and> last line = CHR 0x0A"
  shows "class_name_list class_desc = spec_row_names class_desc"
  using assms by (simp add: class_name_list_def spec_row_names_def)

lemma names_no_eol:
  "class_name_list object_info_no_eol = [''wall'', ''building, edifice'', ''sky'', ''floor, floorin'']"
  by (simp add: class_name_list_def object_info_no_eol_def desc_line_def py_strip_def)

lemma spec_names_no_eol:
  "spec_row_names object_info_no_eol = [''wall'', ''building, edifice'', ''sky'', ''floor, flooring'']"
  by (simp add: spec_row_names_def object_info_no_eol_def desc_line_def py_strip_def)

lemma ade_init_no_eol: "ADE20KDataset_init ade_world_no_eol ade_params_w True = Inr ade_ds_no_eol"
proof -
  have sc: "ade_scan True ''/data/ADEChallengeData2016/images/training''
      ''/data/ADEChallengeData2016/annotations/training''
      [''ADE_train_00000001 bedroom'' @ [CHR 0x0A], ''ADE_val_00000001 kitchen'' @ [CHR 0x0A]] ([], [], [])
    = Inr ([''/data/ADEChallengeData2016/images/training/ADE_train_00000001.jpg''],
           [''/data/ADEChallengeData2016/annotations/training/ADE_train_00000001.png''],
           [''bedroom''])"
    by (simp add: path_join_def)
  show ?thesis
    by (simp add: ADE20KDataset_init_def ade_generate_class_map_def readlines_def Let_def
        ade_world_no_eol_def ade_params_w_def path_join_def sc ade_ds_no_eol_def map_func_dense fun_eq_iff)
qed

text \<open>
  Claim C7 does not hold of the code when the manifest file does not end with an end of
  line. \<open>_generate_class_map\<close> removes the last character of every line (\<open>line[:-1]\<close>,
  commented "remove eol"), so the last row's name "floor, flooring" is read as
  "floor, floorin". The name at row 4 is in the configured class set and its dense id
  is 2, but the class map built by \<open>__init__\<close> sends the grid value 4 to 0, and
  \<open>get_raw_data\<close> returns 0 for the pixel of value 4.
\<close>

theorem ade_manifest_last_row_chopped:
  "spec_row_names object_info_no_eol = [''wall'', ''building, edifice'', ''sky'', ''floor, flooring'']
   \<and> ''floor, flooring'' \<in> ade_classes ade_params_w
   \<and> dense_id (ade_classes ade_params_w) (spec_row_names object_info_no_eol) 4 = 2
   \<and> class_name_list object_info_no_eol = [''wall'', ''building, edifice'', ''sky'', ''floor, floorin'']
   \<and> ADE20KDataset_init ade_world_no_eol ade_params_w True = Inr ade_ds_no_eol
   \<and> ade_class_map ade_ds_no_eol 4 = 0
   \<and> im_bytes seg_gray = [4, 2, 1]
   \<and> ade_get_raw_data ade_world_no_eol ade_ds_no_eol 0 =
       Inr \<lparr>image = img_jpg, seg_mask = \<lparr>shape = [1, 3], data = [0, 0, 1]\<rparr>,
            loss_mask = \<lparr>shape = [1, 3], data = [1, 1, 1]\<rparr>\<rparr>"
proof -
  have a: "''floor, flooring'' \<in> ade_classes ade_params_w" by (simp add: ade_params_w_def)
  have b: "dense_id (ade_classes ade_params_w) (spec_row_names object_info_no_eol) 4 = 2"
    by (simp add: spec_names_no_eol dense_id_def ade_params_w_def)
  have c: "ade_class_map ade_ds_no_eol 4 = 0"
    by (simp add: ade_ds_no_eol_def names_no_eol dense_id_def ade_params_w_def)
  have d: "im_bytes seg_gray = [4, 2, 1]" by (simp add: seg_gray_def)
  have e: "ade_get_raw_data ade_world_no_eol ade_ds_no_eol 0 =
       Inr \<lparr>image = img_jpg, seg_mask = \<lparr>shape = [1, 3], data = [0, 0, 1]\<rparr>,
            loss_mask = \<lparr>shape = [1, 3], data = [1, 1, 1]\<rparr>\<rparr>"
    by (simp add: ade_get_raw_data_def ade_ds_no_eol_def py_getitem_def open_rgb_def image_open_def
        ade_world_no_eol_def np_vectorize_def np_array_def seg_gray_def Let_def tmap_def
        names_no_eol dense_id_def ade_params_w_def)
  from spec_names_no_eol a b names_no_eol ade_init_no_eol c d e show ?thesis by blast
qed

end
